theory Spec2Isabelle
  imports Main "HOL-Library.Word" "HOL-Library.Sublist"
begin

section \<open>Python values, strings and exceptions\<close>

text \<open>
  A Python \<open>str\<close> is a sequence of Unicode code points, so it is modelled as a list of
  natural numbers (one per code point) and not as a list of 8-bit characters. The ASCII
  literals of the source are written with \<open>lit\<close>.
\<close>

type_synonym pystr = "nat list"

definition lit :: "string \<Rightarrow> pystr" where
  "lit s = map of_char s"

text \<open>
  The values that flow through the pipeline: what \<open>json.loads\<close> can return, plus
  \<open>pathlib.Path\<close> objects. A float is kept as its 64 bits and never inspected. A
  \<open>dict\<close> is an association list in insertion order.
\<close>

datatype pyval =
    PNone
  | PBool bool
  | PInt int
  | PFloat "64 word"
  | PStr pystr
  | PPath pystr
  | PList "pyval list"
  | PDict "(pystr \<times> pyval) list"

text \<open>
  An exception is its class and the text \<open>str(e)\<close> gives for it.
  \<open>JSONDecodeErrorSubclass\<close> is a proper subclass of \<open>json.JSONDecodeError\<close>, named by its
  class name; \<open>OtherError\<close> stands for every other subclass of \<open>Exception\<close> that is none
  of the classes listed and no subclass of \<open>json.JSONDecodeError\<close>, named by its class
  name. Only subclasses of \<open>Exception\<close> are modelled, since these are what
  \<open>except Exception\<close> catches.
\<close>

datatype exn_class =
    JSONDecodeError
  | JSONDecodeErrorSubclass pystr
  | ValueError
  | RuntimeError
  | TypeError
  | AttributeError
  | KeyError
  | OtherError pystr

datatype exn = Exn (exn_class: exn_class) (exn_str: pystr)

text \<open>
  \<open>isinstance(e, json.JSONDecodeError)\<close>, which is what \<open>except json.JSONDecodeError\<close>
  tests: the class itself or a subclass of it.
\<close>

fun is_json_decode_error :: "exn_class \<Rightarrow> bool" where
  "is_json_decode_error JSONDecodeError = True"
| "is_json_decode_error (JSONDecodeErrorSubclass name) = True"
| "is_json_decode_error c = False"

definition bind_exn :: "exn + 'a \<Rightarrow> ('a \<Rightarrow> exn + 'b) \<Rightarrow> exn + 'b" where
  "bind_exn m f = (case m of Inl e \<Rightarrow> Inl e | Inr x \<Rightarrow> f x)"

text \<open>The name Python prints for the type of a value, as it appears in error messages.\<close>

fun type_name :: "pyval \<Rightarrow> pystr" where
  "type_name PNone = lit ''NoneType''"
| "type_name (PBool _) = lit ''bool''"
| "type_name (PInt _) = lit ''int''"
| "type_name (PFloat _) = lit ''float''"
| "type_name (PStr _) = lit ''str''"
| "type_name (PPath _) = lit ''PosixPath''"
| "type_name (PList _) = lit ''list''"
| "type_name (PDict _) = lit ''dict''"

text \<open>Truth value of an object, as \<open>if x:\<close>, \<open>not x\<close> and \<open>x or y\<close> test it.\<close>

fun truthy :: "pyval \<Rightarrow> bool" where
  "truthy PNone = False"
| "truthy (PBool b) = b"
| "truthy (PInt i) = (i \<noteq> 0)"
| "truthy (PFloat w) = (w \<noteq> 0 \<and> w \<noteq> push_bit 63 1)"
| "truthy (PStr s) = (s \<noteq> [])"
| "truthy (PPath _) = True"
| "truthy (PList xs) = (xs \<noteq> [])"
| "truthy (PDict kvs) = (kvs \<noteq> [])"

text \<open>\<open>needle in s\<close> for two strings: \<open>needle\<close> occurs in \<open>s\<close> as a contiguous run.\<close>

fun str_contains :: "pystr \<Rightarrow> pystr \<Rightarrow> bool" where
  "str_contains needle [] = (needle = [])"
| "str_contains needle (c # s) =
     (take (length needle) (c # s) = needle \<or> str_contains needle s)"

text \<open>\<open>key in x\<close> for a string \<open>key\<close>.\<close>

fun py_contains :: "pystr \<Rightarrow> pyval \<Rightarrow> exn + bool" where
  "py_contains k (PDict kvs) = Inr (k \<in> set (map fst kvs))"
| "py_contains k (PList xs) = Inr (PStr k \<in> set xs)"
| "py_contains k (PStr s) = Inr (str_contains k s)"
| "py_contains k v =
     Inl (Exn TypeError (lit ''argument of type '' @ [39] @ type_name v @ [39]
                           @ lit '' is not iterable''))"

text \<open>\<open>x[key]\<close> for a string \<open>key\<close>; \<open>str\<close> of a \<open>KeyError\<close> is the quoted key.\<close>

fun py_getitem :: "pyval \<Rightarrow> pystr \<Rightarrow> exn + pyval" where
  "py_getitem (PDict kvs) k =
     (case map_of kvs k of
        None \<Rightarrow> Inl (Exn KeyError ([39] @ k @ [39]))
      | Some v \<Rightarrow> Inr v)"
| "py_getitem (PList xs) k =
     Inl (Exn TypeError (lit ''list indices must be integers or slices, not str''))"
| "py_getitem (PStr s) k =
     Inl (Exn TypeError (lit ''string indices must be integers, not '' @ [39] @ lit ''str'' @ [39]))"
| "py_getitem v k =
     Inl (Exn TypeError ([39] @ type_name v @ [39] @ lit '' object is not subscriptable''))"

text \<open>The code points \<open>str.strip()\<close> removes: those with \<open>str.isspace()\<close> true.\<close>

definition isspace :: "nat \<Rightarrow> bool" where
  "isspace c \<longleftrightarrow>
     (9 \<le> c \<and> c \<le> 13) \<or> (28 \<le> c \<and> c \<le> 32) \<or> c = 133 \<or> c = 160 \<or> c = 5760
     \<or> (8192 \<le> c \<and> c \<le> 8202) \<or> c = 8232 \<or> c = 8233 \<or> c = 8239 \<or> c = 8287
     \<or> c = 12288"

definition strip :: "pystr \<Rightarrow> pystr" where
  "strip s = rev (dropWhile isspace (rev (dropWhile isspace s)))"

section \<open>Script generation (script\_generator.py)\<close>

text \<open>
  \<open>ScriptGenerator.generate\<close>. Two library calls are parameters:
  \<open>chat\<close> is the chat-completion request of lines 46 to 57 up to
  \<open>response.choices[0].message.content\<close>: \<open>Inl e\<close> when building or sending the request, or
  reading the first choice, raises \<open>e\<close>, and \<open>Inr c\<close> with the content otherwise (\<open>None\<close> when
  the message has no content); \<open>loads\<close> is \<open>json.loads\<close>.
  \<open>generate_try\<close> is the body of the \<open>try\<close>, \<open>generate\<close> adds the two handlers.
\<close>

definition generate_try ::
  "(pystr \<Rightarrow> exn + pystr option) \<Rightarrow> (pystr \<Rightarrow> exn + pyval) \<Rightarrow> pystr \<Rightarrow> exn + pyval" where
  "generate_try chat loads user_prompt =
     bind_exn (chat user_prompt) (\<lambda>content.
     bind_exn (case content of
                 None \<Rightarrow> Inl (Exn AttributeError
                          ([39] @ lit ''NoneType'' @ [39] @ lit '' object has no attribute ''
                           @ [39] @ lit ''strip'' @ [39]))
               | Some c \<Rightarrow> Inr (strip c)) (\<lambda>script_text.
     bind_exn (loads script_text) (\<lambda>script_data.
     bind_exn (py_contains (lit ''title'') script_data) (\<lambda>has_title.
     if \<not> has_title then Inl (Exn ValueError (lit ''Invalid script structure returned''))
     else
     bind_exn (py_contains (lit ''script'') script_data) (\<lambda>has_script.
     if \<not> has_script then Inl (Exn ValueError (lit ''Invalid script structure returned''))
     else
     bind_exn (py_getitem script_data (lit ''title'')) (\<lambda>_.
     Inr script_data))))))"

definition generate ::
  "(pystr \<Rightarrow> exn + pystr option) \<Rightarrow> (pystr \<Rightarrow> exn + pyval) \<Rightarrow> pystr \<Rightarrow> exn + pyval" where
  "generate chat loads user_prompt =
     (case generate_try chat loads user_prompt of
        Inr script_data \<Rightarrow> Inr script_data
      | Inl e \<Rightarrow>
          if is_json_decode_error (exn_class e)
          then Inl (Exn ValueError (lit ''Failed to parse script response: '' @ exn_str e))
          else Inl (Exn RuntimeError (lit ''Script generation failed: '' @ exn_str e)))"

section \<open>More operations on values, as the orchestrator uses them\<close>

text \<open>\<open>x.get(key, default)\<close>: only a \<open>dict\<close> has the method.\<close>

fun py_get :: "pyval \<Rightarrow> pystr \<Rightarrow> pyval \<Rightarrow> exn + pyval" where
  "py_get (PDict kvs) k d = Inr (case map_of kvs k of None \<Rightarrow> d | Some v \<Rightarrow> v)"
| "py_get v k d =
     Inl (Exn AttributeError ([39] @ type_name v @ [39] @ lit '' object has no attribute ''
                                @ [39] @ lit ''get'' @ [39]))"

text \<open>\<open>len(x)\<close>.\<close>

fun py_len :: "pyval \<Rightarrow> exn + pyval" where
  "py_len (PStr s) = Inr (PInt (int (length s)))"
| "py_len (PList xs) = Inr (PInt (int (length xs)))"
| "py_len (PDict kvs) = Inr (PInt (int (length kvs)))"
| "py_len v =
     Inl (Exn TypeError (lit ''object of type '' @ [39] @ type_name v @ [39]
                           @ lit '' has no len()''))"

text \<open>
  Iterating over a value: a string yields its characters as strings of length one, a list
  its elements, a \<open>dict\<close> its keys.
\<close>

fun py_iter :: "pyval \<Rightarrow> exn + pyval list" where
  "py_iter (PStr s) = Inr (map (\<lambda>c. PStr [c]) s)"
| "py_iter (PList xs) = Inr xs"
| "py_iter (PDict kvs) = Inr (map (\<lambda>kv. PStr (fst kv)) kvs)"
| "py_iter v =
     Inl (Exn TypeError ([39] @ type_name v @ [39] @ lit '' object is not iterable''))"

text \<open>\<open>d[key] = value\<close> on a \<open>dict\<close>: an existing key keeps its place.\<close>

fun dict_set :: "(pystr \<times> pyval) list \<Rightarrow> pystr \<Rightarrow> pyval \<Rightarrow> (pystr \<times> pyval) list" where
  "dict_set [] k v = [(k, v)]"
| "dict_set ((k', v') # kvs) k v =
     (if k' = k then (k, v) # kvs else (k', v') # dict_set kvs k v)"

section \<open>Output file name (pipeline.py, lines 151 to 154)\<close>

text \<open>
  \<open>str.isalnum\<close> on one code point is the parameter \<open>isalnum\<close> (the Unicode character
  database); on a string it asks for a non-empty string of such code points.
\<close>

definition str_isalnum :: "(nat \<Rightarrow> bool) \<Rightarrow> pystr \<Rightarrow> bool" where
  "str_isalnum isalnum t \<longleftrightarrow> t \<noteq> [] \<and> list_all isalnum t"

text \<open>
  The generator \<open>c for c in title if c.isalnum() or c in (' ', '-', '_')\<close>: the items
  kept, in order; an item that is not a string has no \<open>isalnum\<close>.
\<close>

fun kept_items :: "(nat \<Rightarrow> bool) \<Rightarrow> pyval list \<Rightarrow> exn + pystr list" where
  "kept_items isalnum [] = Inr []"
| "kept_items isalnum (PStr t # cs) =
     bind_exn (kept_items isalnum cs) (\<lambda>rest.
     Inr (if str_isalnum isalnum t \<or> t \<in> {lit '' '', lit ''-'', lit ''_''}
          then t # rest else rest))"
| "kept_items isalnum (c # cs) =
     Inl (Exn AttributeError ([39] @ type_name c @ [39] @ lit '' object has no attribute ''
                                @ [39] @ lit ''isalnum'' @ [39]))"

text \<open>\<open>s.replace(' ', '_')\<close>.\<close>

definition replace_spaces :: "pystr \<Rightarrow> pystr" where
  "replace_spaces s = map (\<lambda>c. if c = 32 then 95 else c) s"

text \<open>Lines 152 to 154: the name derived from the script's title and the timestamp.\<close>

definition derived_filename :: "(nat \<Rightarrow> bool) \<Rightarrow> pyval \<Rightarrow> pystr \<Rightarrow> exn + pystr" where
  "derived_filename isalnum script_data timestamp =
     bind_exn (py_getitem script_data (lit ''title'')) (\<lambda>title.
     bind_exn (py_iter title) (\<lambda>items.
     bind_exn (kept_items isalnum items) (\<lambda>kept.
     let safe_title = concat kept;
         safe_title = take 50 (replace_spaces safe_title)
     in Inr (safe_title @ lit ''_'' @ timestamp @ lit ''.mp4''))))"

text \<open>Line 151: \<open>if not output_filename\<close> holds for \<open>None\<close> and for the empty string.\<close>

definition choose_filename ::
  "(nat \<Rightarrow> bool) \<Rightarrow> pystr option \<Rightarrow> pyval \<Rightarrow> pystr \<Rightarrow> exn + pystr" where
  "choose_filename isalnum output_filename script_data timestamp =
     (case output_filename of
        None \<Rightarrow> derived_filename isalnum script_data timestamp
      | Some f \<Rightarrow> if f = [] then derived_filename isalnum script_data timestamp else Inr f)"

text \<open>
  The derivation in the words of the specification, for a title that is a string: keep the
  alphanumeric characters, spaces, hyphens and underscores, turn spaces into underscores,
  cut to 50 characters, append an underscore, the timestamp and the extension.
\<close>

definition spec_filename :: "(nat \<Rightarrow> bool) \<Rightarrow> pystr \<Rightarrow> pystr \<Rightarrow> pystr" where
  "spec_filename isalnum title timestamp =
     take 50 (map (\<lambda>c. if c = 32 then 95 else c)
                (filter (\<lambda>c. isalnum c \<or> c = 32 \<or> c = 45 \<or> c = 95) title))
     @ [95] @ timestamp @ lit ''.mp4''"

section \<open>The orchestrator (pipeline.py)\<close>

text \<open>
  \<open>self.current_project\<close>: the prompt, the timestamp and the \<open>steps\<close> dictionary, which
  holds the output of every completed stage under its key, in insertion order.
\<close>

record project =
  prompt :: pystr
  timestamp :: pystr
  steps :: "(pystr \<times> pyval) list"

text \<open>
  What a run does to the world outside it, in order, each with the way it ended:
  a call of the progress callback (step, total, label, detail, and the exception the
  callback raised, if any); a call of a stage transform (the key of the stage, the
  arguments, and what it returned or raised); an assignment
  \<open>self.current_project["steps"][key] = value\<close>; the writing of the metadata file by
  \<open>_save_metadata\<close> (path, content, and the exception \<open>open\<close> or \<open>json.dump\<close> raised, if
  any).
\<close>

datatype event =
    Notify nat nat pystr pystr "exn option"
  | Call pystr "pyval list" "exn + pyval"
  | Record pystr pyval
  | SaveMetadata pystr project "exn option"

record pstate =
  current_project :: project
  trace :: "event list"

type_synonym callback = "nat \<Rightarrow> nat \<Rightarrow> pystr \<Rightarrow> pystr \<Rightarrow> exn option"

text \<open>
  The collaborators of a pipeline object, none of them in the repository's sources shown
  here: the two library calls of script generation, the five other stage transforms (the
  optional arguments \<open>None\<close> when absent), the metadata file write (\<open>open\<close> and
  \<open>json.dump\<close> together), \<open>str.isalnum\<close>, the formatting of a value in an f-string,
  \<open>Path(x).name\<close> on a path string, and \<open>OUTPUT_DIR / name\<close>.
\<close>

record env =
  chat :: "pystr \<Rightarrow> exn + pystr option"
  loads :: "pystr \<Rightarrow> exn + pyval"
  create_plan :: "pyval \<Rightarrow> pyval \<Rightarrow> pyval \<Rightarrow> exn + pyval"
  storyboard_generate :: "pyval \<Rightarrow> exn + pyval"
  generate_clips :: "pyval \<Rightarrow> pyval \<Rightarrow> exn + pyval"
  audio_generate :: "pyval \<Rightarrow> exn + pyval"
  assemble :: "pyval \<Rightarrow> pyval \<Rightarrow> pyval \<Rightarrow> exn + pyval"
  write_json :: "pystr \<Rightarrow> project \<Rightarrow> exn option"
  isalnum :: "nat \<Rightarrow> bool"
  str_of :: "pyval \<Rightarrow> pystr"
  basename :: "pystr \<Rightarrow> pystr"
  in_output_dir :: "pystr \<Rightarrow> pystr"

text \<open>
  A piece of the \<open>try\<close> body: it runs on the state, and returns a value or raises; the
  state it leaves behind stays as it is when it raises.
\<close>

type_synonym 'a action = "pstate \<Rightarrow> (exn + 'a) \<times> pstate"

definition and_then :: "'a action \<Rightarrow> ('a \<Rightarrow> 'b action) \<Rightarrow> 'b action" where
  "and_then m f s = (case m s of (Inl e, s') \<Rightarrow> (Inl e, s') | (Inr x, s') \<Rightarrow> f x s')"

definition return :: "'a \<Rightarrow> 'a action" where
  "return x s = (Inr x, s)"

definition compute :: "exn + 'a \<Rightarrow> 'a action" where
  "compute r s = (r, s)"

text \<open>
  \<open>if progress_callback: progress_callback(step, 6, label, detail)\<close>. The detail is
  computed only when there is a callback, and computing it can raise.
\<close>

definition notify :: "callback option \<Rightarrow> nat \<Rightarrow> pystr \<Rightarrow> exn + pystr \<Rightarrow> unit action" where
  "notify progress_callback step label detail s =
     (case progress_callback of
        None \<Rightarrow> (Inr (), s)
      | Some f \<Rightarrow>
          (case detail of
             Inl e \<Rightarrow> (Inl e, s)
           | Inr d \<Rightarrow>
               (case f step 6 label d of
                  None \<Rightarrow> (Inr (), s\<lparr>trace := trace s @ [Notify step 6 label d None]\<rparr>)
                | Some e \<Rightarrow> (Inl e, s\<lparr>trace := trace s @ [Notify step 6 label d (Some e)]\<rparr>))))"

text \<open>A call of a stage transform with its outcome.\<close>

definition call :: "pystr \<Rightarrow> pyval list \<Rightarrow> exn + pyval \<Rightarrow> pyval action" where
  "call key args outcome s = (outcome, s\<lparr>trace := trace s @ [Call key args outcome]\<rparr>)"

text \<open>\<open>self.current_project["steps"][key] = value\<close>.\<close>

definition record_step :: "pystr \<Rightarrow> pyval \<Rightarrow> unit action" where
  "record_step key v s =
     (Inr (),
      s\<lparr>current_project := (current_project s)\<lparr>steps := dict_set (steps (current_project s)) key v\<rparr>,
        trace := trace s @ [Record key v]\<rparr>)"

text \<open>\<open>_save_metadata\<close>.\<close>

definition save_metadata :: "env \<Rightarrow> unit action" where
  "save_metadata E s =
     (let metadata_path =
            in_output_dir E (lit ''project_'' @ timestamp (current_project s) @ lit ''.json'');
          outcome = write_json E metadata_path (current_project s);
          s' = s\<lparr>trace := trace s @ [SaveMetadata metadata_path (current_project s) outcome]\<rparr>
      in (case outcome of None \<Rightarrow> (Inr (), s') | Some e \<Rightarrow> (Inl e, s')))"

text \<open>
  \<open>_print_summary\<close>: printing cannot fail (\<open>safe_print\<close>), reading what is printed can.
\<close>

definition print_summary :: "unit action" where
  "print_summary s =
     (let steps = PDict (steps (current_project s)) in
      (bind_exn (py_getitem steps (lit ''script'')) (\<lambda>script.
       bind_exn (py_getitem script (lit ''title'')) (\<lambda>_.
       bind_exn (py_getitem steps (lit ''scenes'')) (\<lambda>scenes.
       bind_exn (py_getitem scenes (lit ''scenes'')) (\<lambda>scene_list.
       bind_exn (py_len scene_list) (\<lambda>_.
       Inr ()))))),
       s))"

text \<open>The labels of the progress notifications, before and after each step.\<close>

fun starting_label :: "nat \<Rightarrow> pystr" where
  "starting_label n =
     (if n = 1 then [128221] @ lit '' Generating script...''
      else if n = 2 then [127916] @ lit '' Planning scenes...''
      else if n = 3 then [127912] @ lit '' Generating storyboards...''
      else if n = 4 then [127909] @ lit '' Generating video clips...''
      else if n = 5 then [127897, 65039] @ lit '' Generating voiceover...''
      else [127916] @ lit '' Assembling final video...'')"

fun completed_label :: "nat \<Rightarrow> pystr" where
  "completed_label n =
     (if n = 1 then [9989] @ lit '' Script generated''
      else if n = 2 then [9989] @ lit '' Scenes planned''
      else if n = 3 then [9989] @ lit '' Storyboards generated''
      else if n = 4 then [9989] @ lit '' Video clips generated''
      else if n = 5 then [9989] @ lit '' Voiceover generated''
      else [9989] @ lit '' Video complete!'')"

definition skipped_label :: pystr where
  "skipped_label = [9197, 65039] @ lit '' Storyboard generation skipped''"

text \<open>\<open>x or y\<close>.\<close>

definition py_or :: "pyval \<Rightarrow> pyval \<Rightarrow> pyval" where
  "py_or x y = (if truthy x then x else y)"

text \<open>\<open>Path(x).name\<close>.\<close>

definition path_name :: "env \<Rightarrow> pyval \<Rightarrow> exn + pystr" where
  "path_name E v =
     (case v of
        PStr s \<Rightarrow> Inr (basename E s)
      | PPath s \<Rightarrow> Inr (basename E s)
      | _ \<Rightarrow> Inl (Exn TypeError
                 (lit ''expected str, bytes or os.PathLike object, not '' @ type_name v)))"

text \<open>
  The body of the \<open>try\<close> in \<open>VideoPipeline.run\<close>, lines 88 to 166; it returns the local
  variables that the result of line 168 is built from. \<open>use_storyboard\<close> is the field of
  the pipeline object.
\<close>

definition run_try ::
  "env \<Rightarrow> bool \<Rightarrow> pystr \<Rightarrow> pystr option \<Rightarrow> pyval \<Rightarrow> pyval \<Rightarrow> callback option \<Rightarrow> pystr
     \<Rightarrow> (pyval \<times> pyval \<times> pyval) action" where
  "run_try E use_storyboard user_prompt output_filename num_scenes scene_duration
       progress_callback stamp =
     and_then (notify progress_callback 1 (starting_label 1)
                 (Inr (lit ''Creating narrative structure''))) (\<lambda>_.
     and_then (call (lit ''script'') [PStr user_prompt]
                 (generate (chat E) (loads E) user_prompt)) (\<lambda>script_data.
     and_then (record_step (lit ''script'') script_data) (\<lambda>_.
     and_then (notify progress_callback 1 (completed_label 1)
                 (bind_exn (py_get script_data (lit ''title'') (PStr (lit ''Untitled''))) (\<lambda>t.
                  Inr (lit ''Title: '' @ str_of E t)))) (\<lambda>_.
     and_then (notify progress_callback 2 (starting_label 2)
                 (Inr (lit ''Creating '' @ str_of E (py_or num_scenes (PInt 5))
                       @ lit '' scenes''))) (\<lambda>_.
     and_then (call (lit ''scenes'') [script_data, num_scenes, scene_duration]
                 (create_plan E script_data num_scenes scene_duration)) (\<lambda>scene_plan.
     and_then (record_step (lit ''scenes'') scene_plan) (\<lambda>_.
     and_then (notify progress_callback 2 (completed_label 2)
                 (bind_exn (py_get scene_plan (lit ''scenes'') (PList [])) (\<lambda>scenes.
                  bind_exn (py_len scenes) (\<lambda>n.
                  Inr (str_of E n @ lit '' scenes created''))))) (\<lambda>_.
     and_then (if use_storyboard then
                 and_then (notify progress_callback 3 (starting_label 3)
                             (Inr (lit ''Creating visual storyboards for each scene''))) (\<lambda>_.
                 and_then (call (lit ''storyboard'') [scene_plan]
                             (storyboard_generate E scene_plan)) (\<lambda>storyboard_images.
                 and_then (record_step (lit ''storyboard'') storyboard_images) (\<lambda>_.
                 and_then (notify progress_callback 3 (completed_label 3)
                             (bind_exn (py_len (py_or storyboard_images (PList []))) (\<lambda>n.
                              Inr (str_of E n @ lit '' storyboard images created'')))) (\<lambda>_.
                 return storyboard_images))))
               else
                 and_then (notify progress_callback 3 skipped_label
                             (Inr (lit ''Using text-to-video generation''))) (\<lambda>_.
                 return PNone)) (\<lambda>storyboard_images.
     and_then (notify progress_callback 4 (starting_label 4)
                 (Inr (lit ''Creating animated video clips for each scene''))) (\<lambda>_.
     and_then (call (lit ''clips'') [scene_plan, storyboard_images]
                 (generate_clips E scene_plan storyboard_images)) (\<lambda>clip_paths.
     and_then (record_step (lit ''clips'') clip_paths) (\<lambda>_.
     and_then (notify progress_callback 4 (completed_label 4)
                 (bind_exn (py_len clip_paths) (\<lambda>n.
                  Inr (str_of E n @ lit '' video clips created'')))) (\<lambda>_.
     and_then (notify progress_callback 5 (starting_label 5)
                 (Inr (lit ''Creating audio narration from script''))) (\<lambda>_.
     and_then (call (lit ''audio'') [script_data] (audio_generate E script_data)) (\<lambda>audio_path.
     and_then (record_step (lit ''audio'') audio_path) (\<lambda>_.
     and_then (notify progress_callback 5 (completed_label 5)
                 (bind_exn (path_name E audio_path) (\<lambda>name.
                  Inr (lit ''Audio file created: '' @ name)))) (\<lambda>_.
     and_then (notify progress_callback 6 (starting_label 6)
                 (Inr (lit ''Combining video clips with audio''))) (\<lambda>_.
     and_then (compute (choose_filename (isalnum E) output_filename script_data stamp))
       (\<lambda>output_filename.
     let output_path = PPath (in_output_dir E output_filename) in
     and_then (call (lit ''final_video'') [clip_paths, audio_path, output_path]
                 (assemble E clip_paths audio_path output_path)) (\<lambda>final_video.
     and_then (record_step (lit ''final_video'') final_video) (\<lambda>_.
     and_then (notify progress_callback 6 (completed_label 6)
                 (Inr (lit ''Final video saved: '' @ output_filename))) (\<lambda>_.
     and_then (save_metadata E) (\<lambda>_.
     and_then print_summary (\<lambda>_.
     return (final_video, script_data, scene_plan)))))))))))))))))))))))))"

text \<open>
  The dictionary \<open>run\<close> returns: a field that is \<open>None\<close> here is a key the dictionary does
  not have.
\<close>

record run_result =
  success :: bool
  video_path :: "pyval option"
  script :: "pyval option"
  scenes :: "pyval option"
  project_data :: project
  error :: "pystr option"

text \<open>
  \<open>VideoPipeline.run\<close>: the new \<open>current_project\<close>, the \<open>try\<close> body and the handler of
  line 176. \<open>stamp\<close> is the \<open>timestamp\<close> that line 80 reads from the clock. The model returns the
  result together with the trace of the run.
\<close>

definition run ::
  "env \<Rightarrow> bool \<Rightarrow> pystr \<Rightarrow> pystr option \<Rightarrow> pyval \<Rightarrow> pyval \<Rightarrow> callback option \<Rightarrow> pystr
     \<Rightarrow> run_result \<times> event list" where
  "run E use_storyboard user_prompt output_filename num_scenes scene_duration
       progress_callback stamp =
     (let s0 = \<lparr>current_project = \<lparr>prompt = user_prompt, timestamp = stamp, steps = []\<rparr>,
                trace = []\<rparr>
      in case run_try E use_storyboard user_prompt output_filename num_scenes scene_duration
                progress_callback stamp s0 of
           (Inr (final_video, script_data, scene_plan), s) \<Rightarrow>
             (\<lparr>success = True, video_path = Some final_video, script = Some script_data,
               scenes = Some scene_plan, project_data = current_project s, error = None\<rparr>,
              trace s)
         | (Inl e, s) \<Rightarrow>
             (\<lparr>success = False, video_path = None, script = None, scenes = None,
               project_data = current_project s, error = Some (exn_str e)\<rparr>,
              trace s))"

text \<open>
  \<open>VideoPipeline.__init__\<close>, line 56: the flag given to the constructor, or the configured
  default \<open>USE_STORYBOARD\<close> when none is given.
\<close>

definition init_use_storyboard :: "bool option \<Rightarrow> bool \<Rightarrow> bool" where
  "init_use_storyboard use_storyboard USE_STORYBOARD =
     (case use_storyboard of None \<Rightarrow> USE_STORYBOARD | Some b \<Rightarrow> b)"

text \<open>The keys of the stages a run executes, in order.\<close>

definition stage_sequence :: "bool \<Rightarrow> pystr list" where
  "stage_sequence use_storyboard =
     [lit ''script'', lit ''scenes'']
     @ (if use_storyboard then [lit ''storyboard''] else [])
     @ [lit ''clips'', lit ''audio'', lit ''final_video'']"

section \<open>The shape of a run\<close>

text \<open>
  What kind of event an event is, without the values it carries, and the exception it
  ended with, if it did.
\<close>

datatype kind = KNotify nat pystr | KCall pystr | KRecord pystr | KSave

fun kind_of :: "event \<Rightarrow> kind" where
  "kind_of (Notify step n label detail r) = KNotify step label"
| "kind_of (Call key args r) = KCall key"
| "kind_of (Record key v) = KRecord key"
| "kind_of (SaveMetadata path content r) = KSave"

fun failure :: "event \<Rightarrow> exn option" where
  "failure (Notify step n label detail r) = r"
| "failure (Call key args r) = (case r of Inl e \<Rightarrow> Some e | Inr v \<Rightarrow> None)"
| "failure (Record key v) = None"
| "failure (SaveMetadata path content r) = r"

text \<open>The assignments to \<open>steps\<close> among the events, in order.\<close>

fun recorded :: "event list \<Rightarrow> (pystr \<times> pyval) list" where
  "recorded [] = []"
| "recorded (Record key v # q) = (key, v) # recorded q"
| "recorded (ev # q) = recorded q"

definition set_item :: "(pystr \<times> pyval) list \<Rightarrow> pystr \<times> pyval \<Rightarrow> (pystr \<times> pyval) list" where
  "set_item d kv = dict_set d (fst kv) (snd kv)"

text \<open>
  The events of a complete run, by kind: \<open>with_callback\<close> tells whether a progress callback
  was given.
\<close>

definition notification :: "bool \<Rightarrow> nat \<Rightarrow> pystr \<Rightarrow> kind list" where
  "notification with_callback step label = (if with_callback then [KNotify step label] else [])"

definition plan :: "bool \<Rightarrow> bool \<Rightarrow> kind list" where
  "plan use_storyboard with_callback =
     notification with_callback 1 (starting_label 1)
     @ [KCall (lit ''script''), KRecord (lit ''script'')]
     @ notification with_callback 1 (completed_label 1)
     @ notification with_callback 2 (starting_label 2)
     @ [KCall (lit ''scenes''), KRecord (lit ''scenes'')]
     @ notification with_callback 2 (completed_label 2)
     @ (if use_storyboard
        then notification with_callback 3 (starting_label 3)
             @ [KCall (lit ''storyboard''), KRecord (lit ''storyboard'')]
             @ notification with_callback 3 (completed_label 3)
        else notification with_callback 3 skipped_label)
     @ notification with_callback 4 (starting_label 4)
     @ [KCall (lit ''clips''), KRecord (lit ''clips'')]
     @ notification with_callback 4 (completed_label 4)
     @ notification with_callback 5 (starting_label 5)
     @ [KCall (lit ''audio''), KRecord (lit ''audio'')]
     @ notification with_callback 5 (completed_label 5)
     @ notification with_callback 6 (starting_label 6)
     @ [KCall (lit ''final_video''), KRecord (lit ''final_video'')]
     @ notification with_callback 6 (completed_label 6)
     @ [KSave]"

text \<open>
  An action follows a list of kinds when, from every state, it appends to the trace events
  of these kinds in this order, stops at the first event that ends with an exception and
  raises that exception, goes through the whole list when it returns, and changes
  \<open>steps\<close> by the recorded assignments and nothing else of the project.
\<close>

definition grows_by :: "kind list \<Rightarrow> pstate \<Rightarrow> exn + 'a \<Rightarrow> pstate \<Rightarrow> bool" where
  "grows_by shp s r s' \<longleftrightarrow>
     (\<exists>q. trace s' = trace s @ q
        \<and> prefix (map kind_of q) shp
        \<and> (\<forall>ev \<in> set (butlast q). failure ev = None)
        \<and> (\<forall>e. q \<noteq> [] \<and> failure (last q) = Some e \<longrightarrow> r = Inl e)
        \<and> (isl r \<or> (map kind_of q = shp \<and> (\<forall>ev \<in> set q. failure ev = None)))
        \<and> prompt (current_project s') = prompt (current_project s)
        \<and> timestamp (current_project s') = timestamp (current_project s)
        \<and> steps (current_project s') = foldl set_item (steps (current_project s)) (recorded q))"

definition follows :: "'a action \<Rightarrow> kind list \<Rightarrow> bool" where
  "follows act shp \<longleftrightarrow> (\<forall>s. grows_by shp s (fst (act s)) (snd (act s)))"

text \<open>The keys assigned to \<open>steps\<close> among a list of kinds, in order.\<close>

fun record_keys :: "kind list \<Rightarrow> pystr list" where
  "record_keys [] = []"
| "record_keys (KRecord key # ks) = key # record_keys ks"
| "record_keys (k # ks) = record_keys ks"

text \<open>
  The place of a kind in the plan: the step it belongs to and, within the step, the
  starting notification (or the notification of the skip), the call, the assignment and the
  completed notification, in this order; the metadata file comes last.
\<close>

definition stage_step :: "pystr \<Rightarrow> nat" where
  "stage_step key =
     (if key = lit ''script'' then 1
      else if key = lit ''scenes'' then 2
      else if key = lit ''storyboard'' then 3
      else if key = lit ''clips'' then 4
      else if key = lit ''audio'' then 5
      else 6)"

fun rank :: "kind \<Rightarrow> nat" where
  "rank (KNotify step label) = 4 * step + (if label = completed_label step then 3 else 0)"
| "rank (KCall key) = 4 * stage_step key + 1"
| "rank (KRecord key) = 4 * stage_step key + 2"
| "rank KSave = 28"

text \<open>The steps of the notifications among a list of events, in order.\<close>

fun notified_steps :: "event list \<Rightarrow> nat list" where
  "notified_steps [] = []"
| "notified_steps (Notify step n label detail r # q) = step # notified_steps q"
| "notified_steps (ev # q) = notified_steps q"

fun is_notification :: "kind \<Rightarrow> bool" where
  "is_notification (KNotify step label) = True"
| "is_notification k = False"

text \<open>An action emits only events with a given property, whatever the state it starts from.\<close>

definition emits :: "(event \<Rightarrow> bool) \<Rightarrow> 'a action \<Rightarrow> bool" where
  "emits P act \<longleftrightarrow> (\<forall>s. \<exists>q. trace (snd (act s)) = trace s @ q \<and> (\<forall>ev \<in> set q. P ev))"

text \<open>The events of a run other than the calls of the progress callback.\<close>

fun is_notify :: "event \<Rightarrow> bool" where
  "is_notify (Notify step n label detail r) = True"
| "is_notify ev = False"

definition without_notifications :: "event list \<Rightarrow> event list" where
  "without_notifications q = filter (\<lambda>ev. \<not> is_notify ev) q"

text \<open>
  One action compared with another that differs from it only in the progress callback it
  calls, the second callback returning normally: from every state, when the first returns
  a value the second returns the same value in the same state, and when the first raises,
  what it has emitted besides notifications is the beginning of what the second emits.
\<close>

definition lags :: "'a action \<Rightarrow> 'a action \<Rightarrow> bool" where
  "lags act act0 \<longleftrightarrow>
     emits (\<lambda>ev. True) act0
     \<and> (\<forall>s x s'. act s = (Inr x, s') \<longrightarrow> act0 s = (Inr x, s'))
     \<and> (\<forall>s e s'. act s = (Inl e, s') \<longrightarrow>
           (\<exists>q q0. trace s' = trace s @ q \<and> trace (snd (act0 s)) = trace s @ q0
                    \<and> prefix (without_notifications q) (without_notifications q0)))"

section \<open>Example inputs\<close>

text \<open>\<open>str.isalnum\<close> on the ASCII range, for the examples.\<close>

definition ascii_isalnum :: "nat \<Rightarrow> bool" where
  "ascii_isalnum c \<longleftrightarrow>
     (48 \<le> c \<and> c \<le> 57) \<or> (65 \<le> c \<and> c \<le> 90) \<or> (97 \<le> c \<and> c \<le> 122)"

text \<open>\<open>json.loads\<close> on the texts the examples use.\<close>

definition example_loads :: "pystr \<Rightarrow> exn + pyval" where
  \<open>example_loads text =
     (if text = lit ''{"title": "Rainbows"}''
      then Inr (PDict [(lit ''title'', PStr (lit ''Rainbows''))])
      else if text = lit ''{"title": "", "script": ""}''
      then Inr (PDict [(lit ''title'', PStr []), (lit ''script'', PStr [])])
      else if text = lit ''{"title": "How Rainbows Form", "script": "Light bends."}''
      then Inr (PDict [(lit ''title'', PStr (lit ''How Rainbows Form'')),
                       (lit ''script'', PStr (lit ''Light bends.''))])
      else Inl (Exn JSONDecodeError (lit ''Expecting value: line 1 column 1 (char 0)'')))\<close>

text \<open>
  Collaborators that all succeed. \<open>example_str_of\<close> is \<open>str\<close> on the values the examples
  format: strings and one-digit integers.
\<close>

definition example_str_of :: "pyval \<Rightarrow> pystr" where
  "example_str_of v =
     (case v of
        PStr s \<Rightarrow> s
      | PInt i \<Rightarrow> (if 0 \<le> i \<and> i < 10 then [48 + nat i] else lit ''?'')
      | _ \<Rightarrow> lit ''?'')"

definition example_env :: env where
  \<open>example_env =
     \<lparr>chat = (\<lambda>_. Inr (Some (lit ''{"title": "How Rainbows Form", "script": "Light bends."}''))),
      loads = example_loads,
      create_plan = (\<lambda>script_data target_scenes scene_duration.
        Inr (PDict [(lit ''scenes'',
               PList [PDict [(lit ''scene_number'', PInt 1),
                             (lit ''narration'', PStr (lit ''Light bends.'')),
                             (lit ''visual_description'', PStr (lit ''A rainbow'')),
                             (lit ''duration'', PInt 6)]])])),
      storyboard_generate = (\<lambda>scene_plan. Inr (PList [PStr (lit ''temp/scene_1.png'')])),
      generate_clips = (\<lambda>scene_plan storyboard_images. Inr (PList [PStr (lit ''temp/clip_1.mp4'')])),
      audio_generate = (\<lambda>script_data. Inr (PStr (lit ''temp/voiceover.mp3''))),
      assemble = (\<lambda>clip_paths audio_path output_path.
        Inr (case output_path of PPath p \<Rightarrow> PStr p | _ \<Rightarrow> output_path)),
      write_json = (\<lambda>path content. None),
      isalnum = ascii_isalnum,
      str_of = example_str_of,
      basename = (\<lambda>s. rev (takeWhile (\<lambda>c. c \<noteq> 47) (rev s))),
      in_output_dir = (\<lambda>name. lit ''output/'' @ name)\<rparr>\<close>

text \<open>A progress callback that returns normally, and one that raises on its first call.\<close>

definition quiet_callback :: callback where
  "quiet_callback step n label detail = None"

definition raising_callback :: callback where
  "raising_callback step n label detail = Some (Exn RuntimeError (lit ''widget closed''))"

text \<open>Collaborators of which one fails: the chat request, the scene planner, the file write.\<close>

definition failing_chat_env :: env where
  "failing_chat_env =
     example_env\<lparr>chat := (\<lambda>_. Inl (Exn (OtherError (lit ''APIConnectionError''))
                                      (lit ''Connection error.'')))\<rparr>"

definition failing_plan_env :: env where
  "failing_plan_env =
     example_env\<lparr>create_plan := (\<lambda>script_data target_scenes scene_duration.
                     Inl (Exn ValueError (lit ''Invalid scene plan structure'')))\<rparr>"

definition failing_write_env :: env where
  "failing_write_env =
     example_env\<lparr>write_json := (\<lambda>path content.
                     Some (Exn (OtherError (lit ''PermissionError''))
                             (lit ''[Errno 13] Permission denied'')))\<rparr>"

definition silent_write_failure_env :: env where
  "silent_write_failure_env =
     example_env\<lparr>write_json := (\<lambda>path content. Some (Exn (OtherError (lit ''OSError'')) []))\<rparr>"

definition empty_script_env :: env where
  \<open>empty_script_env =
     example_env\<lparr>chat := (\<lambda>_. Inr (Some (lit ''{"title": "", "script": ""}'')))\<rparr>\<close>

section \<open>Properties of the output file name\<close>

lemma kept_items_chars:
  "kept_items alnum (map (\<lambda>c. PStr [c]) s) =
     Inr (map (\<lambda>c. [c]) (filter (\<lambda>c. alnum c \<or> c = 32 \<or> c = 45 \<or> c = 95) s))"
  by (induction s) (auto simp: bind_exn_def str_isalnum_def lit_def)

lemma concat_singletons: "concat (map (\<lambda>c. [c]) xs) = xs"
  by (induction xs) auto

text \<open>
  Claim C6. When no output file name is supplied and the script's title is a string, the
  name the orchestrator derives is the one the specification describes: the title with
  only its alphanumeric characters, spaces, hyphens and underscores kept, spaces turned
  into underscores, cut to 50 characters, followed by an underscore, the timestamp and
  \<open>.mp4\<close>. The derivation is a function of the title and the timestamp (and of nothing
  else of the script), so repeated calls give the same name.
\<close>

theorem derived_filename_spec:
  assumes "map_of kvs (lit ''title'') = Some (PStr title)"
  shows "choose_filename alnum None (PDict kvs) ts = Inr (spec_filename alnum title ts)"
  using assms
  by (simp add: choose_filename_def derived_filename_def bind_exn_def kept_items_chars
      concat_singletons replace_spaces_def spec_filename_def lit_def)

theorem derived_filename_spec_witness:
  "map_of [(lit ''title'', PStr (lit ''How Rainbows Form!'')),
           (lit ''script'', PStr (lit ''Light bends.''))] (lit ''title'')
     = Some (PStr (lit ''How Rainbows Form!''))
   \<and> choose_filename ascii_isalnum None
        (PDict [(lit ''title'', PStr (lit ''How Rainbows Form!'')),
                (lit ''script'', PStr (lit ''Light bends.''))])
        (lit ''20240101_120000'')
      = Inr (lit ''How_Rainbows_Form_20240101_120000.mp4'')"
proof -
  have h: "map_of [(lit ''title'', PStr (lit ''How Rainbows Form!'')),
                   (lit ''script'', PStr (lit ''Light bends.''))] (lit ''title'')
             = Some (PStr (lit ''How Rainbows Form!''))"
    by simp
  have e: "spec_filename ascii_isalnum (lit ''How Rainbows Form!'') (lit ''20240101_120000'')
             = lit ''How_Rainbows_Form_20240101_120000.mp4''"
    by (simp add: spec_filename_def ascii_isalnum_def lit_def)
  show ?thesis
    using h derived_filename_spec [OF h, of ascii_isalnum "lit ''20240101_120000''"] e by simp
qed

section \<open>Properties of script generation\<close>

text \<open>
  Claim C7. A response that is valid JSON but lacks the \<open>script\<close> field makes \<open>generate\<close>
  raise a \<open>RuntimeError\<close>: the \<open>ValueError\<close> of line 62 is raised inside the \<open>try\<close> and the
  handler of line 69 wraps it. A response that is not JSON gives the \<open>ValueError\<close> of
  line 68.
\<close>

theorem missing_field_is_runtime_error:
  \<open>generate (\<lambda>_. Inr (Some (lit ''{"title": "Rainbows"}''))) example_loads
       (lit ''Explain how rainbows form'')
     = Inl (Exn RuntimeError (lit ''Script generation failed: Invalid script structure returned''))
   \<and> generate (\<lambda>_. Inr (Some (lit ''not json''))) example_loads
       (lit ''Explain how rainbows form'')
     = Inl (Exn ValueError
             (lit ''Failed to parse script response: Expecting value: line 1 column 1 (char 0)''))\<close>
  by (simp add: generate_def generate_try_def bind_exn_def strip_def isspace_def
      example_loads_def lit_def)

section \<open>Every run follows the plan\<close>

lemma recorded_append: "recorded (q1 @ q2) = recorded q1 @ recorded q2"
  by (induction q1 rule: recorded.induct) auto

lemma follows_and_then:
  assumes m: "follows m a" and f: "\<And>x. follows (f x) b"
  shows "follows (and_then m f) (a @ b)"
  unfolding follows_def
proof
  fix s
  obtain r1 s1 where ms: "m s = (r1, s1)" by (cases "m s")
  from m have g1: "grows_by a s r1 s1" unfolding follows_def using ms by (metis fst_conv snd_conv)
  then obtain q1 where q1: "trace s1 = trace s @ q1" "prefix (map kind_of q1) a"
      "\<forall>ev \<in> set (butlast q1). failure ev = None"
      "\<forall>e. q1 \<noteq> [] \<and> failure (last q1) = Some e \<longrightarrow> r1 = Inl e"
      "isl r1 \<or> (map kind_of q1 = a \<and> (\<forall>ev \<in> set q1. failure ev = None))"
      "prompt (current_project s1) = prompt (current_project s)"
      "timestamp (current_project s1) = timestamp (current_project s)"
      "steps (current_project s1) = foldl set_item (steps (current_project s)) (recorded q1)"
    unfolding grows_by_def by blast
  show "grows_by (a @ b) s (fst (and_then m f s)) (snd (and_then m f s))"
  proof (cases r1)
    case (Inl e)
    then have "and_then m f s = (Inl e, s1)" by (simp add: and_then_def ms)
    moreover have "prefix (map kind_of q1) (a @ b)" using q1(2) by (simp add: prefix_prefix)
    ultimately show ?thesis
      unfolding grows_by_def using q1 Inl by (intro exI[of _ q1]) auto
  next
    case (Inr x)
    obtain r2 s2 where fs: "f x s1 = (r2, s2)" by (cases "f x s1")
    from f have "grows_by b s1 r2 s2" unfolding follows_def using fs by (metis fst_conv snd_conv)
    then obtain q2 where q2: "trace s2 = trace s1 @ q2" "prefix (map kind_of q2) b"
      "\<forall>ev \<in> set (butlast q2). failure ev = None"
      "\<forall>e. q2 \<noteq> [] \<and> failure (last q2) = Some e \<longrightarrow> r2 = Inl e"
      "isl r2 \<or> (map kind_of q2 = b \<and> (\<forall>ev \<in> set q2. failure ev = None))"
      "prompt (current_project s2) = prompt (current_project s1)"
      "timestamp (current_project s2) = timestamp (current_project s1)"
      "steps (current_project s2) = foldl set_item (steps (current_project s1)) (recorded q2)"
      unfolding grows_by_def by blast
    have res: "and_then m f s = (r2, s2)" by (simp add: and_then_def ms Inr fs)
    have a: "map kind_of q1 = a" and ok1: "\<forall>ev \<in> set q1. failure ev = None"
      using q1(5) Inr by auto
    have p: "prefix (map kind_of (q1 @ q2)) (a @ b)" using a q2(2) by simp
    have bl: "\<forall>ev \<in> set (butlast (q1 @ q2)). failure ev = None"
      using ok1 q2(3) by (auto simp: butlast_append dest: in_set_butlastD)
    have la: "\<forall>e. q1 @ q2 \<noteq> [] \<and> failure (last (q1 @ q2)) = Some e \<longrightarrow> r2 = Inl e"
      using ok1 q2(4) by (cases "q2 = []") auto
    have fin: "isl r2 \<or> (map kind_of (q1 @ q2) = a @ b \<and> (\<forall>ev \<in> set (q1 @ q2). failure ev = None))"
      using a ok1 q2(5) by auto
    show ?thesis
      unfolding grows_by_def res fst_conv snd_conv
      using p bl la fin q1 q2 by (intro exI[of _ "q1 @ q2"]) (simp add: recorded_append)
  qed
qed

lemma follows_notify:
  "follows (notify cb step label detail) (notification (cb \<noteq> None) step label)"
  unfolding follows_def grows_by_def notify_def notification_def
  by (auto split: option.splits sum.splits)

lemma follows_call: "follows (call key args outcome) [KCall key]"
  unfolding follows_def grows_by_def call_def
  by (auto split: sum.splits)

lemma follows_record_step: "follows (record_step key v) [KRecord key]"
  unfolding follows_def grows_by_def record_step_def
  by (auto simp: set_item_def)

lemma follows_compute: "follows (compute r) []"
  unfolding follows_def grows_by_def compute_def by auto

lemma follows_return: "follows (return x) []"
  unfolding follows_def grows_by_def return_def by auto

lemma follows_print_summary: "follows print_summary []"
  unfolding follows_def grows_by_def print_summary_def by (auto simp: Let_def)

lemma follows_save_metadata: "follows (save_metadata E) [KSave]"
  unfolding follows_def grows_by_def save_metadata_def
  by (auto simp: Let_def split: option.splits)

lemma follows_if:
  "follows A a \<Longrightarrow> follows B b \<Longrightarrow> follows (if c then A else B) (if c then a else b)"
  by simp

lemma follows_eq: "follows A a \<Longrightarrow> a = b \<Longrightarrow> follows A b"
  by simp

lemma run_try_follows:
  "follows (run_try E use_storyboard user_prompt output_filename num_scenes scene_duration
              progress_callback stamp)
           (plan use_storyboard (progress_callback \<noteq> None))"
  unfolding run_try_def Let_def
  apply (rule follows_eq)
   apply (rule follows_and_then follows_notify follows_call follows_record_step
      follows_compute follows_return follows_print_summary follows_save_metadata follows_if)+
  apply (simp add: plan_def)
  done

lemma record_keys_append: "record_keys (a @ b) = record_keys a @ record_keys b"
  by (induction a rule: record_keys.induct) auto

lemma recorded_keys: "map fst (recorded q) = record_keys (map kind_of q)"
  by (induction q rule: recorded.induct) auto

lemma record_keys_plan: "record_keys (plan sb c) = stage_sequence sb"
  by (simp add: plan_def notification_def stage_sequence_def record_keys_append)

lemma distinct_stage_sequence: "distinct (stage_sequence sb)"
  by (simp add: stage_sequence_def lit_def)

lemma dict_set_new: "k \<notin> fst ` set d \<Longrightarrow> dict_set d k v = d @ [(k, v)]"
  by (induction d) auto

lemma foldl_set_item_distinct:
  "distinct (map fst (d @ recs)) \<Longrightarrow> foldl set_item d recs = d @ recs"
proof (induction recs arbitrary: d)
  case Nil
  then show ?case by simp
next
  case (Cons kv recs)
  have "set_item d kv = d @ [kv]"
    using Cons.prems by (cases kv) (auto simp: set_item_def dict_set_new)
  moreover have "distinct (map fst ((d @ [kv]) @ recs))" using Cons.prems by simp
  ultimately show ?case using Cons.IH [of "d @ [kv]"] by simp
qed

lemma prefix_record_keys:
  assumes "prefix ks (plan sb c)"
  shows "prefix (record_keys ks) (stage_sequence sb)" and "distinct (record_keys ks)"
proof -
  from assms obtain zs where "plan sb c = ks @ zs" by (auto simp: prefix_def)
  then have "stage_sequence sb = record_keys ks @ record_keys zs"
    using record_keys_plan [of sb c] by (simp add: record_keys_append)
  then show "prefix (record_keys ks) (stage_sequence sb)" by simp
  then show "distinct (record_keys ks)"
    using distinct_stage_sequence [of sb] by (auto simp: prefix_def)
qed

lemma run_facts:
  assumes run: "run E sb p ofn ns sd cb ts = (r, tr)"
  shows "prefix (map kind_of tr) (plan sb (cb \<noteq> None))"
    and "\<forall>ev \<in> set (butlast tr). failure ev = None"
    and "\<forall>e. tr \<noteq> [] \<and> failure (last tr) = Some e \<longrightarrow> \<not> success r \<and> error r = Some (exn_str e)"
    and "success r \<longrightarrow> map kind_of tr = plan sb (cb \<noteq> None) \<and> (\<forall>ev \<in> set tr. failure ev = None)"
    and "steps (project_data r) = recorded tr"
    and "prompt (project_data r) = p" and "timestamp (project_data r) = ts"
    and "success r \<longleftrightarrow> error r = None" and "success r \<longleftrightarrow> video_path r \<noteq> None"
proof -
  define s0 where "s0 = \<lparr>current_project = \<lparr>prompt = p, timestamp = ts, steps = []\<rparr>, trace = []\<rparr>"
  obtain x s where xs: "run_try E sb p ofn ns sd cb ts s0 = (x, s)"
    by (cases "run_try E sb p ofn ns sd cb ts s0")
  have "grows_by (plan sb (cb \<noteq> None)) s0 x s"
    using run_try_follows [of E sb p ofn ns sd cb ts] xs unfolding follows_def
    by (metis fst_conv snd_conv)
  then obtain q where q: "trace s = trace s0 @ q" "prefix (map kind_of q) (plan sb (cb \<noteq> None))"
      "\<forall>ev \<in> set (butlast q). failure ev = None"
      "\<forall>e. q \<noteq> [] \<and> failure (last q) = Some e \<longrightarrow> x = Inl e"
      "isl x \<or> (map kind_of q = plan sb (cb \<noteq> None) \<and> (\<forall>ev \<in> set q. failure ev = None))"
      "prompt (current_project s) = prompt (current_project s0)"
      "timestamp (current_project s) = timestamp (current_project s0)"
      "steps (current_project s) = foldl set_item (steps (current_project s0)) (recorded q)"
    unfolding grows_by_def by blast
  have tr: "tr = q" and pd: "project_data r = current_project s"
    and sx: "success r \<longleftrightarrow> \<not> isl x" and ex: "\<forall>e. x = Inl e \<longrightarrow> error r = Some (exn_str e)"
    and se: "success r \<longleftrightarrow> error r = None" and sv: "success r \<longleftrightarrow> video_path r \<noteq> None"
    using run q(1) xs unfolding run_def s0_def [symmetric] Let_def
    by (auto simp: s0_def split: sum.splits prod.splits)
  show "prefix (map kind_of tr) (plan sb (cb \<noteq> None))" using q(2) tr by simp
  show "\<forall>ev \<in> set (butlast tr). failure ev = None" using q(3) tr by simp
  show "\<forall>e. tr \<noteq> [] \<and> failure (last tr) = Some e \<longrightarrow> \<not> success r \<and> error r = Some (exn_str e)"
    using q(4) tr sx ex by auto
  show "success r \<longrightarrow> map kind_of tr = plan sb (cb \<noteq> None) \<and> (\<forall>ev \<in> set tr. failure ev = None)"
    using q(5) tr sx by auto
  have "distinct (map fst (recorded q))"
    using prefix_record_keys(2) [OF q(2)] by (simp add: recorded_keys)
  then show "steps (project_data r) = recorded tr"
    using q(8) pd tr foldl_set_item_distinct [of "[]" "recorded q"] by (simp add: s0_def)
  show "prompt (project_data r) = p" using q(6) pd by (simp add: s0_def)
  show "timestamp (project_data r) = ts" using q(7) pd by (simp add: s0_def)
  show "success r \<longleftrightarrow> error r = None" by (rule se)
  show "success r \<longleftrightarrow> video_path r \<noteq> None" by (rule sv)
qed

section \<open>Where a run can stop\<close>

lemma lit_eq_iff: "lit a = lit b \<longleftrightarrow> a = b"
  by (simp add: lit_def inj_map_eq_map inj_of_char)

lemma plan_without_notifications:
  "filter (\<lambda>k. \<not> is_notification k) (plan sb c)
     = concat (map (\<lambda>key. [KCall key, KRecord key]) (stage_sequence sb)) @ [KSave]"
  by (simp add: plan_def notification_def stage_sequence_def)

lemma record_keys_filter:
  "record_keys (filter (\<lambda>k. \<not> is_notification k) ks) = record_keys ks"
  by (induction ks rule: record_keys.induct) auto

lemma stopped_at_call:
  assumes "distinct seq"
    and "prefix ks (concat (map (\<lambda>key. [KCall key, KRecord key]) seq) @ [KSave])"
    and "ks \<noteq> []" and "last ks = KCall key"
  shows "record_keys ks = takeWhile (\<lambda>k. k \<noteq> key) seq \<and> KSave \<notin> set ks"
  using assms
proof (induction seq arbitrary: ks)
  case Nil
  then show ?case by (cases ks) auto
next
  case (Cons a seq)
  let ?rest = "concat (map (\<lambda>key. [KCall key, KRecord key]) seq) @ [KSave]"
  from Cons.prems(2,3) obtain ks1 where ks: "ks = KCall a # ks1" and p1: "prefix ks1 (KRecord a # ?rest)"
    by (cases ks) auto
  show ?case
  proof (cases ks1)
    case Nil
    then show ?thesis using ks Cons.prems(4) by simp
  next
    case (Cons k ks2)
    with p1 have k: "k = KRecord a" and p2: "prefix ks2 ?rest" by auto
    have ne: "ks2 \<noteq> []" using Cons.prems(4) ks Cons k by auto
    then have la: "last ks2 = KCall key" using Cons.prems(4) ks Cons by simp
    have d: "distinct seq" and a: "a \<notin> set seq" using Cons.prems(1) by auto
    from Cons.IH [OF d p2 ne la]
    have ih: "record_keys ks2 = takeWhile (\<lambda>k. k \<noteq> key) seq" "KSave \<notin> set ks2" by auto
    have "KCall key \<in> set ks2" using ne la last_in_set by metis
    then have "KCall key \<in> set ?rest" using p2 set_mono_prefix by blast
    then have "key \<in> set seq" by auto
    then have "a \<noteq> key" using a by auto
    then show ?thesis using ih ks Cons k by simp
  qed
qed

lemma plan_stopped_at_call:
  assumes "prefix ks (plan sb c)" and "ks \<noteq> []" and "last ks = KCall key"
  shows "record_keys ks = takeWhile (\<lambda>k. k \<noteq> key) (stage_sequence sb)" and "KSave \<notin> set ks"
proof -
  let ?core = "filter (\<lambda>k. \<not> is_notification k) ks"
  have "prefix ?core (filter (\<lambda>k. \<not> is_notification k) (plan sb c))"
    by (rule filter_mono_prefix [OF assms(1)])
  then have p: "prefix ?core (concat (map (\<lambda>key. [KCall key, KRecord key]) (stage_sequence sb)) @ [KSave])"
    by (simp only: plan_without_notifications)
  have ks: "ks = butlast ks @ [KCall key]" using assms(2,3) by (metis snoc_eq_iff_butlast)
  have "?core = filter (\<lambda>k. \<not> is_notification k) (butlast ks) @ [KCall key]"
    by (subst ks) simp
  then have ne: "?core \<noteq> []" and la: "last ?core = KCall key" by simp_all
  note r = stopped_at_call [OF distinct_stage_sequence p ne la]
  from r show "record_keys ks = takeWhile (\<lambda>k. k \<noteq> key) (stage_sequence sb)"
    by (simp add: record_keys_filter)
  from r have "KSave \<notin> set ?core" by simp
  then show "KSave \<notin> set ks" by auto
qed

section \<open>Running the examples\<close>

lemma and_then_notify_none: "and_then (notify None step label detail) f s = f () s"
  by (simp add: and_then_def notify_def)

lemma and_then_notify_some:
  "and_then (notify (Some cb) step label detail) f s =
     (case detail of
        Inl e \<Rightarrow> (Inl e, s)
      | Inr d \<Rightarrow>
          (case cb step 6 label d of
             None \<Rightarrow> f () (s\<lparr>trace := trace s @ [Notify step 6 label d None]\<rparr>)
           | Some e \<Rightarrow> (Inl e, s\<lparr>trace := trace s @ [Notify step 6 label d (Some e)]\<rparr>)))"
  by (simp add: and_then_def notify_def split: sum.splits option.splits)

lemma and_then_assoc: "and_then (and_then m f) g = and_then m (\<lambda>x. and_then (f x) g)"
  by (rule ext) (simp add: and_then_def split: prod.splits sum.splits)

lemma and_then_call_ok:
  "and_then (call key args (Inr v)) f s = f v (s\<lparr>trace := trace s @ [Call key args (Inr v)]\<rparr>)"
  by (simp add: and_then_def call_def)

lemma and_then_call_raise:
  "and_then (call key args (Inl e)) f s = (Inl e, s\<lparr>trace := trace s @ [Call key args (Inl e)]\<rparr>)"
  by (simp add: and_then_def call_def)

lemma and_then_record_step:
  "and_then (record_step key v) f s
     = f () (s\<lparr>current_project :=
                (current_project s)\<lparr>steps := dict_set (steps (current_project s)) key v\<rparr>,
              trace := trace s @ [Record key v]\<rparr>)"
  by (simp add: and_then_def record_step_def)

lemma and_then_compute_ok: "and_then (compute (Inr x)) f s = f x s"
  by (simp add: and_then_def compute_def)

lemma and_then_return: "and_then (return x) f s = f x s"
  by (simp add: and_then_def return_def)

lemma and_then_save_metadata:
  "and_then (save_metadata E) f s =
     (let metadata_path =
            in_output_dir E (lit ''project_'' @ timestamp (current_project s) @ lit ''.json'');
          outcome = write_json E metadata_path (current_project s);
          s' = s\<lparr>trace := trace s @ [SaveMetadata metadata_path (current_project s) outcome]\<rparr>
      in (case outcome of None \<Rightarrow> f () s' | Some e \<Rightarrow> (Inl e, s')))"
  by (simp add: and_then_def save_metadata_def Let_def split: option.splits)

lemma and_then_print_summary:
  "and_then print_summary f s =
     (case fst (print_summary s) of Inl e \<Rightarrow> (Inl e, s) | Inr x \<Rightarrow> f x s)"
  by (simp add: and_then_def print_summary_def Let_def split: sum.splits)

lemmas run_steps = and_then_notify_none and_then_notify_some and_then_assoc
  and_then_save_metadata and_then_print_summary
  and_then_call_ok and_then_call_raise and_then_record_step and_then_compute_ok
  and_then_return

lemmas example_defs = quiet_callback_def raising_callback_def example_env_def
  failing_chat_env_def failing_plan_env_def failing_write_env_def
  silent_write_failure_env_def empty_script_env_def bind_exn_def py_or_def path_name_def
  print_summary_def return_def

lemma example_generate:
  "generate (chat example_env) example_loads p
     = Inr (PDict [(lit ''title'', PStr (lit ''How Rainbows Form'')),
                   (lit ''script'', PStr (lit ''Light bends.''))])"
  by (simp add: generate_def generate_try_def bind_exn_def strip_def isspace_def
      example_loads_def example_env_def lit_def)

lemma failing_generate:
  "generate (chat failing_chat_env) example_loads p
     = Inl (Exn RuntimeError (lit ''Script generation failed: Connection error.''))"
  by (simp add: generate_def generate_try_def bind_exn_def failing_chat_env_def
      example_env_def lit_def)

lemma empty_generate:
  "generate (chat empty_script_env) example_loads p
     = Inr (PDict [(lit ''title'', PStr []), (lit ''script'', PStr [])])"
  by (simp add: generate_def generate_try_def bind_exn_def strip_def isspace_def
      example_loads_def empty_script_env_def example_env_def lit_def)

lemma example_env_fields:
  "chat failing_plan_env = chat example_env" "chat failing_write_env = chat example_env"
  "chat silent_write_failure_env = chat example_env"
  "loads example_env = example_loads" "loads failing_chat_env = example_loads"
  "loads failing_plan_env = example_loads" "loads failing_write_env = example_loads"
  "loads silent_write_failure_env = example_loads" "loads empty_script_env = example_loads"
  by (simp_all add: example_defs)

lemmas generate_examples = example_env_fields example_generate failing_generate empty_generate

lemma derived_filename_ok:
  "map_of kvs (lit ''title'') = Some (PStr title) \<Longrightarrow>
   choose_filename alnum None (PDict kvs) ts = Inr (spec_filename alnum title ts)"
  by (simp add: choose_filename_def derived_filename_def bind_exn_def kept_items_chars
      concat_singletons replace_spaces_def spec_filename_def lit_def)

lemma example_run_succeeds:
  "success (fst (run example_env True (lit ''Explain how rainbows form'') None PNone PNone
                   (Some quiet_callback) (lit ''20240101_120000'')))"
  unfolding run_def run_try_def Let_def
  apply (simp add: run_steps generate_examples quiet_callback_def bind_exn_def)
  apply (simp add: run_steps example_defs derived_filename_ok lit_eq_iff)
  done

lemma failing_chat_run:
  "run failing_chat_env True (lit ''Explain how rainbows form'') None PNone PNone None
       (lit ''20240101_120000'')
   = (\<lparr>success = False, video_path = None, script = None, scenes = None,
       project_data = \<lparr>prompt = lit ''Explain how rainbows form'',
                        timestamp = lit ''20240101_120000'', steps = []\<rparr>,
       error = Some (lit ''Script generation failed: Connection error.'')\<rparr>,
      [Call (lit ''script'') [PStr (lit ''Explain how rainbows form'')]
         (Inl (Exn RuntimeError (lit ''Script generation failed: Connection error.'')))])"
  unfolding run_def run_try_def Let_def
  by (simp add: run_steps generate_examples)

lemma failing_plan_run:
  "run failing_plan_env True (lit ''Explain how rainbows form'') None PNone PNone None
       (lit ''20240101_120000'')
   = (\<lparr>success = False, video_path = None, script = None, scenes = None,
       project_data = \<lparr>prompt = lit ''Explain how rainbows form'',
                        timestamp = lit ''20240101_120000'',
                        steps = [(lit ''script'',
                                  PDict [(lit ''title'', PStr (lit ''How Rainbows Form'')),
                                         (lit ''script'', PStr (lit ''Light bends.''))])]\<rparr>,
       error = Some (lit ''Invalid scene plan structure'')\<rparr>,
      [Call (lit ''script'') [PStr (lit ''Explain how rainbows form'')]
         (Inr (PDict [(lit ''title'', PStr (lit ''How Rainbows Form'')),
                      (lit ''script'', PStr (lit ''Light bends.''))])),
       Record (lit ''script'')
         (PDict [(lit ''title'', PStr (lit ''How Rainbows Form'')),
                 (lit ''script'', PStr (lit ''Light bends.''))]),
       Call (lit ''scenes'')
         [PDict [(lit ''title'', PStr (lit ''How Rainbows Form'')),
                 (lit ''script'', PStr (lit ''Light bends.''))], PNone, PNone]
         (Inl (Exn ValueError (lit ''Invalid scene plan structure'')))])"
  unfolding run_def run_try_def Let_def
  apply (simp add: run_steps generate_examples)
  apply (simp add: run_steps example_defs)
  done

lemma raising_callback_run:
  "run example_env True (lit ''Explain how rainbows form'') None PNone PNone
       (Some raising_callback) (lit ''20240101_120000'')
   = (\<lparr>success = False, video_path = None, script = None, scenes = None,
       project_data = \<lparr>prompt = lit ''Explain how rainbows form'',
                        timestamp = lit ''20240101_120000'', steps = []\<rparr>,
       error = Some (lit ''widget closed'')\<rparr>,
      [Notify 1 6 (starting_label 1) (lit ''Creating narrative structure'')
         (Some (Exn RuntimeError (lit ''widget closed'')))])"
  unfolding run_def run_try_def Let_def
  by (simp add: run_steps raising_callback_def del: starting_label.simps)

lemma failing_write_run:
  "success (fst (run failing_write_env True (lit ''Explain how rainbows form'') None PNone PNone
                   None (lit ''20240101_120000''))) = False
   \<and> error (fst (run failing_write_env True (lit ''Explain how rainbows form'') None PNone PNone
                   None (lit ''20240101_120000''))) = Some (lit ''[Errno 13] Permission denied'')
   \<and> map fst (steps (project_data (fst (run failing_write_env True
        (lit ''Explain how rainbows form'') None PNone PNone None (lit ''20240101_120000'')))))
      = [lit ''script'', lit ''scenes'', lit ''storyboard'', lit ''clips'', lit ''audio'',
         lit ''final_video'']
   \<and> SaveMetadata (lit ''output/project_20240101_120000.json'')
        (project_data (fst (run failing_write_env True (lit ''Explain how rainbows form'')
            None PNone PNone None (lit ''20240101_120000''))))
        (Some (Exn (OtherError (lit ''PermissionError'')) (lit ''[Errno 13] Permission denied'')))
      \<in> set (snd (run failing_write_env True (lit ''Explain how rainbows form'') None PNone
                      PNone None (lit ''20240101_120000'')))"
  unfolding run_def run_try_def Let_def
  apply (simp add: run_steps generate_examples)
  apply (simp add: run_steps example_defs derived_filename_ok lit_eq_iff)
  apply (simp add: lit_def)
  done

section \<open>Results of a run\<close>

lemma failure_is_last:
  assumes "\<forall>x \<in> set (butlast tr). failure x = None" and "ev \<in> set tr" and "failure ev = Some e"
  shows "tr \<noteq> []" and "last tr = ev"
proof -
  show ne: "tr \<noteq> []" using assms(2) by auto
  then have "tr = butlast tr @ [last tr]" by simp
  then have "ev \<in> set (butlast tr) \<or> ev = last tr"
    using assms(2) by (metis Un_iff empty_iff empty_set set_ConsD set_append)
  then show "last tr = ev" using assms(1,3) by auto
qed

lemma keys_of_run:
  assumes "run E sb p ofn ns sd cb ts = (r, tr)"
  shows "map fst (steps (project_data r)) = record_keys (map kind_of tr)"
  using run_facts(5) [OF assms] by (simp add: recorded_keys)

lemma stage_failure:
  assumes run: "run E sb p ofn ns sd cb ts = (r, tr)" and call: "Call key args (Inl e) \<in> set tr"
  shows "\<not> success r" and "error r = Some (exn_str e)"
    and "map fst (steps (project_data r)) = takeWhile (\<lambda>k. k \<noteq> key) (stage_sequence sb)"
    and "KSave \<notin> set (map kind_of tr)"
proof -
  have f: "failure (Call key args (Inl e)) = Some e" by simp
  note l = failure_is_last [OF run_facts(2) [OF run] call f]
  show "\<not> success r" and "error r = Some (exn_str e)"
    using run_facts(3) [OF run] l by auto
  have ne: "map kind_of tr \<noteq> []" using l(1) by simp
  have la: "last (map kind_of tr) = KCall key" using l by (simp add: last_map)
  note s = plan_stopped_at_call [OF run_facts(1) [OF run] ne la]
  show "map fst (steps (project_data r)) = takeWhile (\<lambda>k. k \<noteq> key) (stage_sequence sb)"
    using s(1) keys_of_run [OF run] by simp
  show "KSave \<notin> set (map kind_of tr)" by (rule s(2))
qed

lemma plan_ends_with_save:
  shows "plan sb c = butlast (plan sb c) @ [KSave]" and "KSave \<notin> set (butlast (plan sb c))"
  by (simp_all add: plan_def notification_def butlast_append)

lemma plan_stopped_at_save:
  assumes "prefix ks (plan sb c)" and "ks \<noteq> []" and "last ks = KSave"
  shows "ks = plan sb c"
proof -
  have e: "plan sb c = butlast (plan sb c) @ [KSave]" by (rule plan_ends_with_save(1))
  have n: "KSave \<notin> set (butlast (plan sb c))" by (rule plan_ends_with_save(2))
  have "prefix ks (butlast (plan sb c) @ [KSave])" using assms(1) e by simp
  then have c: "ks = butlast (plan sb c) @ [KSave] \<or> prefix ks (butlast (plan sb c))"
    by (simp only: prefix_snoc)
  have m: "KSave \<in> set ks" using assms(2,3) last_in_set by metis
  have "\<not> prefix ks (butlast (plan sb c))"
  proof
    assume "prefix ks (butlast (plan sb c))"
    then have "set ks \<subseteq> set (butlast (plan sb c))" by (rule set_mono_prefix)
    then show False using m n by auto
  qed
  then show ?thesis using c e by simp
qed



section \<open>The values a run passes on\<close>

lemma emits_and_then:
  assumes "emits P m" and "\<And>x. emits P (f x)"
  shows "emits P (and_then m f)"
  unfolding emits_def
proof
  fix s
  obtain r1 s1 where ms: "m s = (r1, s1)" by (cases "m s")
  from assms(1) obtain q1 where q1: "trace s1 = trace s @ q1" "\<forall>ev \<in> set q1. P ev"
    unfolding emits_def using ms by (metis snd_conv)
  show "\<exists>q. trace (snd (and_then m f s)) = trace s @ q \<and> (\<forall>ev \<in> set q. P ev)"
  proof (cases r1)
    case (Inl e)
    then show ?thesis using q1 ms by (auto simp: and_then_def)
  next
    case (Inr x)
    from assms(2) [of x] obtain q2 where
      q2: "trace (snd (f x s1)) = trace s1 @ q2" "\<forall>ev \<in> set q2. P ev"
      unfolding emits_def by blast
    have "trace (snd (and_then m f s)) = trace s @ (q1 @ q2)"
      using Inr ms q1(1) q2(1) by (simp add: and_then_def)
    moreover have "\<forall>ev \<in> set (q1 @ q2). P ev" using q1(2) q2(2) by auto
    ultimately show ?thesis by blast
  qed
qed

lemma emits_call_then:
  assumes "P (Call key args outcome)" and "\<And>v. outcome = Inr v \<Longrightarrow> emits P (g v)"
  shows "emits P (and_then (call key args outcome) g)"
  unfolding emits_def
proof
  fix s :: pstate
  let ?s1 = "s\<lparr>trace := trace s @ [Call key args outcome]\<rparr>"
  show "\<exists>q. trace (snd (and_then (call key args outcome) g s)) = trace s @ q \<and> (\<forall>ev \<in> set q. P ev)"
  proof (cases outcome)
    case (Inl e)
    then show ?thesis using assms(1) by (auto simp: and_then_def call_def)
  next
    case (Inr v)
    from assms(2) [OF Inr] obtain q2 where
      q2: "trace (snd (g v ?s1)) = trace ?s1 @ q2" "\<forall>ev \<in> set q2. P ev"
      unfolding emits_def by blast
    have "trace (snd (and_then (call key args outcome) g s)) = trace s @ (Call key args outcome # q2)"
      using Inr q2(1) by (simp add: and_then_def call_def)
    moreover have "\<forall>ev \<in> set (Call key args outcome # q2). P ev" using assms(1) q2(2) by auto
    ultimately show ?thesis by blast
  qed
qed

lemma emits_compute_then:
  assumes "\<And>x. c = Inr x \<Longrightarrow> emits P (g x)"
  shows "emits P (and_then (compute c) g)"
  unfolding emits_def
proof
  fix s
  show "\<exists>q. trace (snd (and_then (compute c) g s)) = trace s @ q \<and> (\<forall>ev \<in> set q. P ev)"
  proof (cases c)
    case (Inl e)
    then show ?thesis by (auto simp: and_then_def compute_def)
  next
    case (Inr x)
    from assms [OF Inr] show ?thesis
      unfolding emits_def using Inr by (simp add: and_then_def compute_def)
  qed
qed

lemma emits_notify:
  "(\<And>d r. detail = Inr d \<Longrightarrow> P (Notify step 6 label d r)) \<Longrightarrow>
   emits P (notify cb step label detail)"
  unfolding emits_def notify_def by (auto split: option.splits sum.splits)

lemma emits_record_step: "P (Record key v) \<Longrightarrow> emits P (record_step key v)"
  unfolding emits_def record_step_def by auto

lemma emits_save_metadata:
  "(\<And>path content r. P (SaveMetadata path content r)) \<Longrightarrow> emits P (save_metadata E)"
  unfolding emits_def save_metadata_def by (auto simp: Let_def split: option.splits)

lemma emits_print_summary: "emits P print_summary"
  unfolding emits_def print_summary_def by (auto simp: Let_def)

lemma emits_return: "emits P (return x)"
  unfolding emits_def return_def by auto

lemma emits_if: "emits P A \<Longrightarrow> emits P B \<Longrightarrow> emits P (if c then A else B)"
  by simp

lemmas emits_rules = emits_call_then emits_compute_then emits_and_then emits_notify
  emits_record_step emits_save_metadata emits_print_summary emits_return emits_if

lemma emits_run:
  assumes "emits P (run_try E sb p ofn ns sd cb ts)" and "run E sb p ofn ns sd cb ts = (r, tr)"
  shows "\<forall>ev \<in> set tr. P ev"
proof -
  let ?s0 = "\<lparr>current_project = \<lparr>prompt = p, timestamp = ts, steps = []\<rparr>, trace = []\<rparr>"
  from assms(1) obtain q where
    "trace (snd (run_try E sb p ofn ns sd cb ts ?s0)) = trace ?s0 @ q" "\<forall>ev \<in> set q. P ev"
    unfolding emits_def by blast
  moreover have "tr = trace (snd (run_try E sb p ofn ns sd cb ts ?s0))"
    using assms(2) unfolding run_def Let_def by (auto split: prod.splits sum.splits)
  ultimately show ?thesis by simp
qed

lemma final_video_path:
  assumes "f \<noteq> []"
  shows "emits (\<lambda>ev. \<forall>args outcome. ev = Call (lit ''final_video'') args outcome \<longrightarrow>
                  (\<exists>clip_paths audio_path. args = [clip_paths, audio_path, PPath (in_output_dir E f)]))
           (run_try E sb p (Some f) ns sd cb ts)"
  unfolding run_try_def Let_def
  by (rule emits_rules | simp add: lit_eq_iff choose_filename_def assms)+

lemma labels_differ:
  shows "starting_label n \<noteq> completed_label n" and "skipped_label \<noteq> completed_label n"
  by (simp_all add: skipped_label_def)

lemma final_video_detail:
  assumes "f \<noteq> []"
  shows "emits (\<lambda>ev. \<forall>d r. ev = Notify 6 6 (completed_label 6) d r \<longrightarrow>
                  d = lit ''Final video saved: '' @ f)
           (run_try E sb p (Some f) ns sd cb ts)"
  unfolding run_try_def Let_def
  by (rule emits_rules | simp add: choose_filename_def assms)+

lemma kind_in_trace:
  assumes "k \<in> set (map kind_of tr)"
  obtains ev where "ev \<in> set tr" and "kind_of ev = k"
  using assms by auto

lemma call_of_kind: "kind_of ev = KCall key \<Longrightarrow> \<exists>args outcome. ev = Call key args outcome"
  by (cases ev) auto

lemma call_in_plan: "key \<in> set (stage_sequence sb) \<Longrightarrow> KCall key \<in> set (plan sb c)"
  by (auto simp: plan_def notification_def stage_sequence_def split: if_splits)

text \<open>
  Claim C10, as amended. In every run, a supplied output file name that is not empty is
  used exactly as given: line 151 keeps it, the assembler is called with
  \<open>OUTPUT_DIR / output_filename\<close> for that very name (and is called, in a run that
  succeeds), and the last notification reports that name. Nothing is filtered, replaced,
  cut or appended.
\<close>

theorem supplied_filename_kept:
  assumes "run E use_storyboard user_prompt (Some f) num_scenes scene_duration
             progress_callback stamp = (r, tr)"
    and "f \<noteq> []"
  shows "choose_filename (isalnum E) (Some f) script_data stamp = Inr f
         \<and> (\<forall>args outcome. Call (lit ''final_video'') args outcome \<in> set tr \<longrightarrow>
               (\<exists>clip_paths audio_path.
                  args = [clip_paths, audio_path, PPath (in_output_dir E f)]))
         \<and> (\<forall>d x. Notify 6 6 (completed_label 6) d x \<in> set tr \<longrightarrow>
               d = lit ''Final video saved: '' @ f)
         \<and> (success r \<longrightarrow>
               (\<exists>clip_paths audio_path outcome.
                  Call (lit ''final_video'') [clip_paths, audio_path, PPath (in_output_dir E f)]
                    outcome \<in> set tr))"
proof -
  have a: "choose_filename (isalnum E) (Some f) script_data stamp = Inr f"
    using assms(2) by (simp add: choose_filename_def)
  have b: "\<forall>args outcome. Call (lit ''final_video'') args outcome \<in> set tr \<longrightarrow>
             (\<exists>clip_paths audio_path. args = [clip_paths, audio_path, PPath (in_output_dir E f)])"
    using emits_run [OF final_video_path [OF assms(2)] assms(1)] by blast
  have c: "\<forall>d x. Notify 6 6 (completed_label 6) d x \<in> set tr \<longrightarrow>
             d = lit ''Final video saved: '' @ f"
    using emits_run [OF final_video_detail [OF assms(2)] assms(1)] by blast
  have d: "\<exists>clip_paths audio_path outcome.
             Call (lit ''final_video'') [clip_paths, audio_path, PPath (in_output_dir E f)]
               outcome \<in> set tr" if "success r"
  proof -
    have "KCall (lit ''final_video'') \<in> set (map kind_of tr)"
      using run_facts(4) [OF assms(1)] that call_in_plan [of "lit ''final_video''" use_storyboard]
      by (simp add: stage_sequence_def)
    then obtain ev where ev: "ev \<in> set tr" "kind_of ev = KCall (lit ''final_video'')"
      by (rule kind_in_trace)
    then obtain args outcome where "ev = Call (lit ''final_video'') args outcome"
      using call_of_kind by blast
    then show ?thesis using ev(1) b by blast
  qed
  show ?thesis using a b c d by blast
qed

theorem supplied_filename_kept_witness:
  "run example_env False (lit ''Explain how rainbows form'') (Some (lit ''my video!.mov''))
       PNone PNone None (lit ''20240101_120000'')
     = (fst (run example_env False (lit ''Explain how rainbows form'')
               (Some (lit ''my video!.mov'')) PNone PNone None (lit ''20240101_120000'')),
        snd (run example_env False (lit ''Explain how rainbows form'')
               (Some (lit ''my video!.mov'')) PNone PNone None (lit ''20240101_120000'')))
   \<and> lit ''my video!.mov'' \<noteq> []
   \<and> success (fst (run example_env False (lit ''Explain how rainbows form'')
               (Some (lit ''my video!.mov'')) PNone PNone None (lit ''20240101_120000'')))
   \<and> (\<exists>clip_paths audio_path outcome.
         Call (lit ''final_video'')
           [clip_paths, audio_path, PPath (in_output_dir example_env (lit ''my video!.mov''))]
           outcome
         \<in> set (snd (run example_env False (lit ''Explain how rainbows form'')
               (Some (lit ''my video!.mov'')) PNone PNone None (lit ''20240101_120000''))))"
proof -
  let ?R = "run example_env False (lit ''Explain how rainbows form'')
              (Some (lit ''my video!.mov'')) PNone PNone None (lit ''20240101_120000'')"
  have h: "?R = (fst ?R, snd ?R)" by simp
  have ne: "lit ''my video!.mov'' \<noteq> []" by (simp add: lit_def)
  have s: "success (fst ?R)"
    unfolding run_def run_try_def Let_def
    apply (simp add: run_steps generate_examples)
    apply (simp add: run_steps example_defs choose_filename_def ne lit_eq_iff)
    done
  show ?thesis
    using supplied_filename_kept [OF h ne] h ne s by blast
qed

text \<open>
  Claim C10 as stated fails for the empty string: \<open>if not output_filename\<close> treats it as no
  name at all, the name is derived from the title, and the assembler is called with the
  derived name.
\<close>

theorem empty_filename_not_kept:
  "choose_filename ascii_isalnum (Some [])
     (PDict [(lit ''title'', PStr (lit ''A b'')), (lit ''script'', PStr [])]) (lit ''1'')
     = Inr (lit ''A_b_1.mp4'')
   \<and> Call (lit ''final_video'')
        [PList [PStr (lit ''temp/clip_1.mp4'')], PStr (lit ''temp/voiceover.mp3''),
         PPath (lit ''output/How_Rainbows_Form_20240101_120000.mp4'')]
        (Inr (PStr (lit ''output/How_Rainbows_Form_20240101_120000.mp4'')))
      \<in> set (snd (run example_env False (lit ''Explain how rainbows form'') (Some [])
                      PNone PNone None (lit ''20240101_120000'')))"
proof -
  have a: "choose_filename ascii_isalnum (Some [])
     (PDict [(lit ''title'', PStr (lit ''A b'')), (lit ''script'', PStr [])]) (lit ''1'')
     = Inr (lit ''A_b_1.mp4'')"
    by (simp add: choose_filename_def derived_filename_def bind_exn_def str_isalnum_def
        replace_spaces_def ascii_isalnum_def lit_def)
  have e: "choose_filename alnum (Some []) v t = choose_filename alnum None v t" for alnum v t
    by (simp add: choose_filename_def)
  have n: "spec_filename ascii_isalnum (lit ''How Rainbows Form'') (lit ''20240101_120000'')
             = lit ''How_Rainbows_Form_20240101_120000.mp4''"
    by (simp add: spec_filename_def ascii_isalnum_def lit_def)
  have b: "Call (lit ''final_video'')
        [PList [PStr (lit ''temp/clip_1.mp4'')], PStr (lit ''temp/voiceover.mp3''),
         PPath (lit ''output/How_Rainbows_Form_20240101_120000.mp4'')]
        (Inr (PStr (lit ''output/How_Rainbows_Form_20240101_120000.mp4'')))
      \<in> set (snd (run example_env False (lit ''Explain how rainbows form'') (Some [])
                      PNone PNone None (lit ''20240101_120000'')))"
    unfolding run_def run_try_def Let_def
    apply (simp add: run_steps generate_examples)
    apply (simp add: run_steps example_defs e derived_filename_ok n lit_eq_iff)
    apply (simp add: lit_def)
    done
  show ?thesis using a b by simp
qed

section \<open>Failures\<close>

lemma plan_contains_save:
  assumes "prefix ks (plan sb c)" and "KSave \<in> set ks"
  shows "ks = plan sb c"
proof -
  have e: "plan sb c = butlast (plan sb c) @ [KSave]" by (rule plan_ends_with_save(1))
  have n: "KSave \<notin> set (butlast (plan sb c))" by (rule plan_ends_with_save(2))
  have "prefix ks (butlast (plan sb c) @ [KSave])" using assms(1) e by simp
  then have c: "ks = butlast (plan sb c) @ [KSave] \<or> prefix ks (butlast (plan sb c))"
    by (simp only: prefix_snoc)
  have "\<not> prefix ks (butlast (plan sb c))"
  proof
    assume "prefix ks (butlast (plan sb c))"
    then have "set ks \<subseteq> set (butlast (plan sb c))" by (rule set_mono_prefix)
    then show False using assms(2) n by auto
  qed
  then show ?thesis using c e by simp
qed



lemma saved_run:
  assumes run: "run E sb p ofn ns sd cb ts = (r, tr)"
    and save: "SaveMetadata path content outcome \<in> set tr"
  shows "map kind_of tr = plan sb (cb \<noteq> None)"
    and "map fst (steps (project_data r)) = stage_sequence sb"
proof -
  have "KSave \<in> set (map kind_of tr)" using save by force
  then show k: "map kind_of tr = plan sb (cb \<noteq> None)"
    using plan_contains_save [OF run_facts(1) [OF run]] by simp
  show "map fst (steps (project_data r)) = stage_sequence sb"
    using keys_of_run [OF run] k by (simp add: record_keys_plan)
qed

text \<open>
  Claim C1, as amended. When a stage transform raises, the orchestrator does not attempt
  metadata persistence: no metadata record is written in that run, which returns
  \<open>success = False\<close> with the exception's message, its \<open>steps\<close> holding exactly the stages
  that completed before the failing one. A metadata record is written only in a run in
  which every stage has completed, and then \<open>steps\<close> holds all of them.
\<close>

theorem stage_failure_skips_metadata:
  assumes "run E use_storyboard user_prompt output_filename num_scenes scene_duration
             progress_callback stamp = (r, tr)"
  shows "(\<forall>key args e. Call key args (Inl e) \<in> set tr \<longrightarrow>
            (\<forall>path content outcome. SaveMetadata path content outcome \<notin> set tr)
            \<and> \<not> success r \<and> error r = Some (exn_str e)
            \<and> map fst (steps (project_data r))
                = takeWhile (\<lambda>k. k \<noteq> key) (stage_sequence use_storyboard))
         \<and> (\<forall>path content outcome. SaveMetadata path content outcome \<in> set tr \<longrightarrow>
               map fst (steps (project_data r)) = stage_sequence use_storyboard)"
proof -
  have a: "(\<forall>path content outcome. SaveMetadata path content outcome \<notin> set tr)
            \<and> \<not> success r \<and> error r = Some (exn_str e)
            \<and> map fst (steps (project_data r))
                = takeWhile (\<lambda>k. k \<noteq> key) (stage_sequence use_storyboard)"
    if c: "Call key args (Inl e) \<in> set tr" for key args e
  proof -
    note f = stage_failure [OF assms c]
    have "SaveMetadata path content outcome \<notin> set tr" for path content outcome
    proof
      assume "SaveMetadata path content outcome \<in> set tr"
      then have "kind_of (SaveMetadata path content outcome) \<in> set (map kind_of tr)"
        by (metis image_eqI set_map)
      then show False using f(4) by simp
    qed
    then show ?thesis using f(1,2,3) by blast
  qed
  have b: "map fst (steps (project_data r)) = stage_sequence use_storyboard"
    if "SaveMetadata path content outcome \<in> set tr" for path content outcome
    using saved_run(2) [OF assms that] .
  show ?thesis using a b by blast
qed

theorem stage_failure_skips_metadata_witness:
  "run failing_plan_env True (lit ''Explain how rainbows form'') None PNone PNone None
       (lit ''20240101_120000'')
     = (fst (run failing_plan_env True (lit ''Explain how rainbows form'') None PNone PNone None
               (lit ''20240101_120000'')),
        snd (run failing_plan_env True (lit ''Explain how rainbows form'') None PNone PNone None
               (lit ''20240101_120000'')))
   \<and> Call (lit ''scenes'')
         [PDict [(lit ''title'', PStr (lit ''How Rainbows Form'')),
                 (lit ''script'', PStr (lit ''Light bends.''))], PNone, PNone]
         (Inl (Exn ValueError (lit ''Invalid scene plan structure'')))
       \<in> set (snd (run failing_plan_env True (lit ''Explain how rainbows form'') None PNone
                      PNone None (lit ''20240101_120000'')))
   \<and> (\<forall>path content outcome. SaveMetadata path content outcome
         \<notin> set (snd (run failing_plan_env True (lit ''Explain how rainbows form'') None PNone
                        PNone None (lit ''20240101_120000''))))
   \<and> map fst (steps (project_data (fst (run failing_plan_env True
         (lit ''Explain how rainbows form'') None PNone PNone None (lit ''20240101_120000'')))))
      = [lit ''script'']"
proof -
  let ?R = "run failing_plan_env True (lit ''Explain how rainbows form'') None PNone PNone None
              (lit ''20240101_120000'')"
  have h: "?R = (fst ?R, snd ?R)" by simp
  have c: "Call (lit ''scenes'')
         [PDict [(lit ''title'', PStr (lit ''How Rainbows Form'')),
                 (lit ''script'', PStr (lit ''Light bends.''))], PNone, PNone]
         (Inl (Exn ValueError (lit ''Invalid scene plan structure''))) \<in> set (snd ?R)"
    by (simp add: failing_plan_run)
  have k: "map fst (steps (project_data (fst ?R))) = [lit ''script'']"
    by (simp add: failing_plan_run)
  show ?thesis
    using stage_failure_skips_metadata [OF h] h c k by blast
qed

text \<open>
  Claim C1 as stated fails when the script stage raises: the run ends with the call of
  the script stage, and no metadata record is written, although the file write would
  succeed.
\<close>

theorem no_metadata_after_failure:
  "run failing_chat_env True (lit ''Explain how rainbows form'') None PNone PNone None
       (lit ''20240101_120000'')
   = (\<lparr>success = False, video_path = None, script = None, scenes = None,
       project_data = \<lparr>prompt = lit ''Explain how rainbows form'',
                        timestamp = lit ''20240101_120000'', steps = []\<rparr>,
       error = Some (lit ''Script generation failed: Connection error.'')\<rparr>,
      [Call (lit ''script'') [PStr (lit ''Explain how rainbows form'')]
         (Inl (Exn RuntimeError (lit ''Script generation failed: Connection error.'')))])
   \<and> write_json failing_chat_env (lit ''output/project_20240101_120000.json'')
        \<lparr>prompt = lit ''Explain how rainbows form'', timestamp = lit ''20240101_120000'',
          steps = []\<rparr> = None"
  using failing_chat_run by (simp add: example_defs)

lemma call_succeeded: "failure (Call key args outcome) = None \<Longrightarrow> \<exists>v. outcome = Inr v"
  by (cases outcome) auto

text \<open>
  Claim C2, as amended. When the metadata-persistence step raises, which happens only
  after all stage transforms of the run have succeeded, the run returns
  \<open>success = False\<close> with the message of the persistence failure as its \<open>error\<close> and without
  \<open>video_path\<close>; \<open>project_data\<close> holds the entries of all stages, the final video included.
\<close>

theorem metadata_failure_fails_run:
  assumes "run E use_storyboard user_prompt output_filename num_scenes scene_duration
             progress_callback stamp = (r, tr)"
    and "SaveMetadata path content (Some e) \<in> set tr"
  shows "\<not> success r \<and> error r = Some (exn_str e) \<and> video_path r = None
         \<and> map fst (steps (project_data r)) = stage_sequence use_storyboard
         \<and> (\<forall>key args outcome. Call key args outcome \<in> set tr \<longrightarrow> (\<exists>v. outcome = Inr v))
         \<and> (\<forall>key \<in> set (stage_sequence use_storyboard).
               \<exists>args v. Call key args (Inr v) \<in> set tr)"
proof -
  have f: "failure (SaveMetadata path content (Some e)) = Some e" by simp
  note l = failure_is_last [OF run_facts(2) [OF assms(1)] assms(2) f]
  have a: "\<not> success r" "error r = Some (exn_str e)"
    using run_facts(3) [OF assms(1)] l by auto
  have v: "video_path r = None" using a(1) run_facts(9) [OF assms(1)] by simp
  note s = saved_run [OF assms]
  have c: "\<exists>v. outcome = Inr v" if "Call key args outcome \<in> set tr" for key args outcome
  proof -
    have "Call key args outcome \<noteq> last tr" using l(2) by simp
    moreover have "tr = butlast tr @ [last tr]" using l(1) by simp
    ultimately have "Call key args outcome \<in> set (butlast tr)"
      using that by (metis Un_iff empty_iff empty_set set_ConsD set_append)
    then have "failure (Call key args outcome) = None" using run_facts(2) [OF assms(1)] by blast
    then show ?thesis by (rule call_succeeded)
  qed
  have d: "\<exists>args v. Call key args (Inr v) \<in> set tr" if "key \<in> set (stage_sequence use_storyboard)" for key
  proof -
    have "KCall key \<in> set (map kind_of tr)" using s(1) call_in_plan [OF that] by simp
    then obtain ev where ev: "ev \<in> set tr" "kind_of ev = KCall key" by (rule kind_in_trace)
    then obtain args outcome where "ev = Call key args outcome" using call_of_kind by blast
    then show ?thesis using ev(1) c by blast
  qed
  show ?thesis using a v s(2) c d by blast
qed

theorem metadata_failure_fails_run_witness:
  "run failing_write_env True (lit ''Explain how rainbows form'') None PNone PNone None
       (lit ''20240101_120000'')
     = (fst (run failing_write_env True (lit ''Explain how rainbows form'') None PNone PNone
               None (lit ''20240101_120000'')),
        snd (run failing_write_env True (lit ''Explain how rainbows form'') None PNone PNone
               None (lit ''20240101_120000'')))
   \<and> SaveMetadata (lit ''output/project_20240101_120000.json'')
        (project_data (fst (run failing_write_env True (lit ''Explain how rainbows form'')
            None PNone PNone None (lit ''20240101_120000''))))
        (Some (Exn (OtherError (lit ''PermissionError'')) (lit ''[Errno 13] Permission denied'')))
      \<in> set (snd (run failing_write_env True (lit ''Explain how rainbows form'') None PNone
                      PNone None (lit ''20240101_120000'')))
   \<and> \<not> success (fst (run failing_write_env True (lit ''Explain how rainbows form'') None
                      PNone PNone None (lit ''20240101_120000'')))
   \<and> error (fst (run failing_write_env True (lit ''Explain how rainbows form'') None
                      PNone PNone None (lit ''20240101_120000'')))
      = Some (lit ''[Errno 13] Permission denied'')
   \<and> (\<exists>args v. Call (lit ''final_video'') args (Inr v)
         \<in> set (snd (run failing_write_env True (lit ''Explain how rainbows form'') None PNone
                        PNone None (lit ''20240101_120000''))))"
proof -
  let ?R = "run failing_write_env True (lit ''Explain how rainbows form'') None PNone PNone
              None (lit ''20240101_120000'')"
  have h: "?R = (fst ?R, snd ?R)" by simp
  have m: "SaveMetadata (lit ''output/project_20240101_120000.json'') (project_data (fst ?R))
        (Some (Exn (OtherError (lit ''PermissionError'')) (lit ''[Errno 13] Permission denied'')))
      \<in> set (snd ?R)"
    using failing_write_run by simp
  have k: "lit ''final_video'' \<in> set (stage_sequence True)"
    by (simp add: stage_sequence_def)
  show ?thesis
    using metadata_failure_fails_run [OF h m] h m k by simp
qed

text \<open>
  Claim C2 as stated fails when the file write raises after all six stages have succeeded: the
  result has \<open>success = False\<close> and the message of the write failure as its \<open>error\<close>,
  while \<open>steps\<close> holds the output of every stage.
\<close>

theorem metadata_failure_overrides_success:
  "success (fst (run failing_write_env True (lit ''Explain how rainbows form'') None PNone PNone
                   None (lit ''20240101_120000''))) = False
   \<and> error (fst (run failing_write_env True (lit ''Explain how rainbows form'') None PNone PNone
                   None (lit ''20240101_120000''))) = Some (lit ''[Errno 13] Permission denied'')
   \<and> map fst (steps (project_data (fst (run failing_write_env True
        (lit ''Explain how rainbows form'') None PNone PNone None (lit ''20240101_120000'')))))
      = [lit ''script'', lit ''scenes'', lit ''storyboard'', lit ''clips'', lit ''audio'',
         lit ''final_video'']"
  using failing_write_run by simp





section \<open>A callback that raises\<close>

lemma without_notifications_append:
  "without_notifications (a @ b) = without_notifications a @ without_notifications b"
  by (simp add: without_notifications_def)

lemma lags_returns: "lags act act0 \<Longrightarrow> act s = (Inr x, s') \<Longrightarrow> act0 s = (Inr x, s')"
  unfolding lags_def by blast

lemma lags_raises:
  "lags act act0 \<Longrightarrow> act s = (Inl e, s') \<Longrightarrow>
   \<exists>q q0. trace s' = trace s @ q \<and> trace (snd (act0 s)) = trace s @ q0
           \<and> prefix (without_notifications q) (without_notifications q0)"
  unfolding lags_def by blast

lemma lags_emits: "lags act act0 \<Longrightarrow> emits (\<lambda>ev. True) act0"
  unfolding lags_def by blast

lemma emits_trace: "emits P act \<Longrightarrow> \<exists>q. trace (snd (act s)) = trace s @ q"
  unfolding emits_def by blast

lemma lags_refl:
  assumes "emits (\<lambda>ev. True) act"
  shows "lags act act"
  unfolding lags_def
proof (intro conjI allI impI)
  show "emits (\<lambda>ev. True) act" by (rule assms)
next
  fix s x s' assume "act s = (Inr x, s')"
  then show "act s = (Inr x, s')" .
next
  fix s e s' assume a: "act s = (Inl e, s')"
  from emits_trace [OF assms, of s] obtain q where "trace (snd (act s)) = trace s @ q" by blast
  then have "trace s' = trace s @ q \<and> trace (snd (act s)) = trace s @ q
             \<and> prefix (without_notifications q) (without_notifications q)"
    using a by simp
  then show "\<exists>q q0. trace s' = trace s @ q \<and> trace (snd (act s)) = trace s @ q0
                  \<and> prefix (without_notifications q) (without_notifications q0)"
    by blast
qed

lemma lags_and_then:
  assumes m: "lags m m0" and f: "\<And>x. lags (f x) (f0 x)"
  shows "lags (and_then m f) (and_then m0 f0)"
  unfolding lags_def
proof (intro conjI allI impI)
  show "emits (\<lambda>ev. True) (and_then m0 f0)"
    using lags_emits [OF m] lags_emits [OF f] by (rule emits_and_then)
next
  fix s x s' assume a: "and_then m f s = (Inr x, s')"
  obtain r1 s1 where ms: "m s = (r1, s1)" by (cases "m s")
  from a ms obtain y where y: "r1 = Inr y" and fy: "f y s1 = (Inr x, s')"
    by (cases r1) (auto simp: and_then_def)
  have "m0 s = (Inr y, s1)" using lags_returns [OF m] ms y by simp
  moreover have "f0 y s1 = (Inr x, s')" using lags_returns [OF f fy] .
  ultimately show "and_then m0 f0 s = (Inr x, s')" by (simp add: and_then_def)
next
  fix s e s' assume a: "and_then m f s = (Inl e, s')"
  obtain r1 s1 where ms: "m s = (r1, s1)" by (cases "m s")
  obtain r0 t where m0s: "m0 s = (r0, t)" by (cases "m0 s")
  show "\<exists>q q0. trace s' = trace s @ q \<and> trace (snd (and_then m0 f0 s)) = trace s @ q0
                  \<and> prefix (without_notifications q) (without_notifications q0)"
  proof (cases r1)
    case (Inl e1)
    then have s1: "s1 = s'" using a ms by (simp add: and_then_def)
    from lags_raises [OF m, of s e1 s1] ms Inl m0s
    obtain q q0 where q: "trace s1 = trace s @ q" "trace t = trace s @ q0"
        "prefix (without_notifications q) (without_notifications q0)"
      by auto
    have "\<exists>q1. trace (snd (and_then m0 f0 s)) = trace s @ (q0 @ q1)"
    proof (cases r0)
      case (Inl e0)
      then show ?thesis using m0s q(2) by (simp add: and_then_def)
    next
      case (Inr x0)
      from emits_trace [OF lags_emits [OF f], of x0 t] obtain q1 where
        "trace (snd (f0 x0 t)) = trace t @ q1" by blast
      then show ?thesis using m0s Inr q(2) by (simp add: and_then_def)
    qed
    then obtain q1 where q1: "trace (snd (and_then m0 f0 s)) = trace s @ (q0 @ q1)" by blast
    have "prefix (without_notifications q) (without_notifications (q0 @ q1))"
      using q(3) by (simp add: without_notifications_append prefix_prefix)
    then show ?thesis using s1 q(1) q1 by blast
  next
    case (Inr y)
    have m0: "m0 s = (Inr y, s1)" using lags_returns [OF m] ms Inr by simp
    from emits_trace [OF lags_emits [OF m], of s] m0 obtain qm where
      qm: "trace s1 = trace s @ qm" by auto
    have fy: "f y s1 = (Inl e, s')" using a ms Inr by (simp add: and_then_def)
    have res0: "and_then m0 f0 s = f0 y s1" using m0 by (simp add: and_then_def)
    from lags_raises [OF f fy] obtain q q0 where
      q: "trace s' = trace s1 @ q" "trace (snd (f0 y s1)) = trace s1 @ q0"
         "prefix (without_notifications q) (without_notifications q0)"
      by blast
    have "trace s' = trace s @ (qm @ q)" "trace (snd (and_then m0 f0 s)) = trace s @ (qm @ q0)"
      using q(1,2) qm res0 by simp_all
    moreover have "prefix (without_notifications (qm @ q)) (without_notifications (qm @ q0))"
      using q(3) by (simp add: without_notifications_append)
    ultimately show ?thesis by blast
  qed
qed

lemma lags_notify:
  "lags (notify (Some cb) step label detail) (notify (Some quiet_callback) step label detail)"
  unfolding lags_def
proof (intro conjI allI impI)
  show "emits (\<lambda>ev. True) (notify (Some quiet_callback) step label detail)"
    by (rule emits_notify) simp
next
  fix s x s' assume "notify (Some cb) step label detail s = (Inr x, s')"
  then show "notify (Some quiet_callback) step label detail s = (Inr x, s')"
    by (auto simp: notify_def quiet_callback_def split: sum.splits option.splits)
next
  fix s e s' assume a: "notify (Some cb) step label detail s = (Inl e, s')"
  show "\<exists>q q0. trace s' = trace s @ q
          \<and> trace (snd (notify (Some quiet_callback) step label detail s)) = trace s @ q0
          \<and> prefix (without_notifications q) (without_notifications q0)"
  proof (cases detail)
    case (Inl e1)
    then have "trace s' = trace s @ []
      \<and> trace (snd (notify (Some quiet_callback) step label detail s)) = trace s @ []
      \<and> prefix (without_notifications []) (without_notifications [])"
      using a by (auto simp: notify_def)
    then show ?thesis by blast
  next
    case (Inr d)
    then have "trace s' = trace s @ [Notify step 6 label d (Some e)]
      \<and> trace (snd (notify (Some quiet_callback) step label detail s))
          = trace s @ [Notify step 6 label d None]
      \<and> prefix (without_notifications [Notify step 6 label d (Some e)])
                (without_notifications [Notify step 6 label d None])"
      using a by (auto simp: notify_def quiet_callback_def without_notifications_def
          split: option.splits)
    then show ?thesis by blast
  qed
qed

lemma lags_if: "lags A A0 \<Longrightarrow> lags B B0 \<Longrightarrow> lags (if c then A else B) (if c then A0 else B0)"
  by simp

lemma lags_call: "lags (call key args outcome) (call key args outcome)"
  by (rule lags_refl) (simp add: emits_def call_def)

lemma lags_record_step: "lags (record_step key v) (record_step key v)"
  by (rule lags_refl) (rule emits_record_step, simp)

lemma lags_compute: "lags (compute c) (compute c)"
  by (rule lags_refl) (simp add: emits_def compute_def)

lemma lags_return: "lags (return x) (return x)"
  by (rule lags_refl) (rule emits_return)

lemma lags_save_metadata: "lags (save_metadata E) (save_metadata E)"
  by (rule lags_refl) (rule emits_save_metadata, simp)

lemma lags_print_summary: "lags print_summary print_summary"
  by (rule lags_refl) (rule emits_print_summary)

lemma run_try_lags:
  "lags (run_try E sb p ofn ns sd (Some cb) ts) (run_try E sb p ofn ns sd (Some quiet_callback) ts)"
  unfolding run_try_def Let_def
  by (rule lags_and_then lags_notify lags_if lags_call lags_record_step lags_compute
      lags_return lags_save_metadata lags_print_summary)+

lemma recorded_without_notifications: "recorded (without_notifications q) = recorded q"
  unfolding without_notifications_def by (induction q rule: recorded.induct) auto

lemma recorded_prefix: "prefix a b \<Longrightarrow> prefix (recorded a) (recorded b)"
  by (auto simp: prefix_def recorded_append)

lemma run_lags:
  assumes run: "run E sb p ofn ns sd (Some cb) ts = (r, tr)"
    and run0: "run E sb p ofn ns sd (Some quiet_callback) ts = (r0, tr0)"
  shows "success r \<Longrightarrow> r0 = r \<and> tr0 = tr"
    and "prefix (without_notifications tr) (without_notifications tr0)"
proof -
  let ?s0 = "\<lparr>current_project = \<lparr>prompt = p, timestamp = ts, steps = []\<rparr>, trace = []\<rparr>"
  let ?A = "run_try E sb p ofn ns sd (Some cb) ts"
  let ?B = "run_try E sb p ofn ns sd (Some quiet_callback) ts"
  obtain x s where xs: "?A ?s0 = (x, s)" by (cases "?A ?s0")
  have tr0: "tr0 = trace (snd (?B ?s0))"
    using run0 unfolding run_def Let_def by (auto split: prod.splits sum.splits)
  have tr: "tr = trace s"
    using run xs unfolding run_def Let_def by (auto split: prod.splits sum.splits)
  have sx: "success r \<longleftrightarrow> \<not> isl x"
    using run xs unfolding run_def Let_def by (auto split: prod.splits sum.splits)
  have same: "r0 = r \<and> tr0 = tr" if "\<not> isl x"
  proof -
    from that obtain y where y: "x = Inr y" by (cases x) auto
    have "?B ?s0 = (Inr y, s)" using lags_returns [OF run_try_lags] xs y by simp
    then show ?thesis using run run0 xs y unfolding run_def Let_def by auto
  qed
  show "success r \<Longrightarrow> r0 = r \<and> tr0 = tr" using same sx by simp
  show "prefix (without_notifications tr) (without_notifications tr0)"
  proof (cases x)
    case (Inl e)
    from lags_raises [OF run_try_lags, of E sb p ofn ns sd cb ts ?s0 e s] xs Inl
    obtain q q0 where "trace s = trace ?s0 @ q" "trace (snd (?B ?s0)) = trace ?s0 @ q0"
        "prefix (without_notifications q) (without_notifications q0)"
      by auto
    then show ?thesis using tr tr0 by simp
  next
    case (Inr y)
    then show ?thesis using same by simp
  qed
qed

text \<open>
  Claim C3, as amended. An exception raised by the progress callback is caught by the
  handler of the run like a stage failure and aborts the run at that notification: the
  result has \<open>success = False\<close>, the exception's message as \<open>error\<close> and no \<open>video_path\<close>, and
  the notification is the last thing the run does. Up to that point the run is the one in
  which the callback returns normally: the stage transforms invoked and the entries of
  \<open>steps\<close> are the beginning of those of that run. A callback that never raises leaves the
  result and the trace as they are with a callback that returns normally.
\<close>

theorem callback_exception_aborts:
  assumes "run E use_storyboard user_prompt output_filename num_scenes scene_duration
             (Some cb) stamp = (r, tr)"
    and "run E use_storyboard user_prompt output_filename num_scenes scene_duration
             (Some quiet_callback) stamp = (r0, tr0)"
  shows "(\<forall>step n label detail e. Notify step n label detail (Some e) \<in> set tr \<longrightarrow>
            \<not> success r \<and> error r = Some (exn_str e) \<and> video_path r = None
            \<and> last tr = Notify step n label detail (Some e))
         \<and> prefix (without_notifications tr) (without_notifications tr0)
         \<and> prefix (steps (project_data r)) (steps (project_data r0))
         \<and> (success r \<longrightarrow> r0 = r \<and> tr0 = tr)"
proof -
  have a: "\<not> success r \<and> error r = Some (exn_str e) \<and> video_path r = None
            \<and> last tr = Notify step n label detail (Some e)"
    if n: "Notify step n label detail (Some e) \<in> set tr" for step n label detail e
  proof -
    have f: "failure (Notify step n label detail (Some e)) = Some e" by simp
    note l = failure_is_last [OF run_facts(2) [OF assms(1)] n f]
    have "\<not> success r" "error r = Some (exn_str e)"
      using run_facts(3) [OF assms(1)] l by auto
    then show ?thesis using l(2) run_facts(9) [OF assms(1)] by simp
  qed
  note b = run_lags(2) [OF assms]
  have "prefix (recorded (without_notifications tr)) (recorded (without_notifications tr0))"
    using b by (rule recorded_prefix)
  then have c: "prefix (steps (project_data r)) (steps (project_data r0))"
    using run_facts(5) [OF assms(1)] run_facts(5) [OF assms(2)]
    by (simp add: recorded_without_notifications)
  show ?thesis using a b c run_lags(1) [OF assms] by blast
qed

theorem callback_exception_aborts_witness:
  "run example_env True (lit ''Explain how rainbows form'') None PNone PNone
       (Some raising_callback) (lit ''20240101_120000'')
     = (fst (run example_env True (lit ''Explain how rainbows form'') None PNone PNone
               (Some raising_callback) (lit ''20240101_120000'')),
        snd (run example_env True (lit ''Explain how rainbows form'') None PNone PNone
               (Some raising_callback) (lit ''20240101_120000'')))
   \<and> run example_env True (lit ''Explain how rainbows form'') None PNone PNone
       (Some quiet_callback) (lit ''20240101_120000'')
     = (fst (run example_env True (lit ''Explain how rainbows form'') None PNone PNone
               (Some quiet_callback) (lit ''20240101_120000'')),
        snd (run example_env True (lit ''Explain how rainbows form'') None PNone PNone
               (Some quiet_callback) (lit ''20240101_120000'')))
   \<and> Notify 1 6 (starting_label 1) (lit ''Creating narrative structure'')
        (Some (Exn RuntimeError (lit ''widget closed'')))
      \<in> set (snd (run example_env True (lit ''Explain how rainbows form'') None PNone PNone
                      (Some raising_callback) (lit ''20240101_120000'')))
   \<and> \<not> success (fst (run example_env True (lit ''Explain how rainbows form'') None PNone PNone
                      (Some raising_callback) (lit ''20240101_120000'')))
   \<and> error (fst (run example_env True (lit ''Explain how rainbows form'') None PNone PNone
                      (Some raising_callback) (lit ''20240101_120000'')))
      = Some (lit ''widget closed'')"
proof -
  let ?R = "run example_env True (lit ''Explain how rainbows form'') None PNone PNone
              (Some raising_callback) (lit ''20240101_120000'')"
  let ?Q = "run example_env True (lit ''Explain how rainbows form'') None PNone PNone
              (Some quiet_callback) (lit ''20240101_120000'')"
  have h: "?R = (fst ?R, snd ?R)" by simp
  have h0: "?Q = (fst ?Q, snd ?Q)" by simp
  have n: "Notify 1 6 (starting_label 1) (lit ''Creating narrative structure'')
        (Some (Exn RuntimeError (lit ''widget closed''))) \<in> set (snd ?R)"
    by (simp only: raising_callback_run snd_conv) simp
  have e: "exn_str (Exn RuntimeError (lit ''widget closed'')) = lit ''widget closed''" by simp
  show ?thesis
    using callback_exception_aborts [OF h h0] h h0 n e by metis
qed

text \<open>
  Claim C3 as stated fails for a callback that raises on its first call: no stage
  transform is invoked and the run fails, while with a callback that returns normally
  the same run succeeds.
\<close>

theorem raising_callback_aborts_run:
  "run example_env True (lit ''Explain how rainbows form'') None PNone PNone
       (Some raising_callback) (lit ''20240101_120000'')
   = (\<lparr>success = False, video_path = None, script = None, scenes = None,
       project_data = \<lparr>prompt = lit ''Explain how rainbows form'',
                        timestamp = lit ''20240101_120000'', steps = []\<rparr>,
       error = Some (lit ''widget closed'')\<rparr>,
      [Notify 1 6 (starting_label 1) (lit ''Creating narrative structure'')
         (Some (Exn RuntimeError (lit ''widget closed'')))])
   \<and> success (fst (run example_env True (lit ''Explain how rainbows form'') None PNone PNone
                     (Some quiet_callback) (lit ''20240101_120000'')))"
  using raising_callback_run example_run_succeeds by simp

section \<open>What script generation returns and where it goes\<close>

lemma generate_returns_dict:
  assumes "generate request parse p = Inr v"
  shows "\<exists>kvs. v = PDict kvs \<and> lit ''title'' \<in> fst ` set kvs \<and> lit ''script'' \<in> fst ` set kvs"
proof -
  from assms have t: "generate_try request parse p = Inr v"
    by (auto simp: generate_def split: sum.splits if_splits)
  then have
    "py_contains (lit ''title'') v = Inr True" "py_contains (lit ''script'') v = Inr True"
    "\<exists>x. py_getitem v (lit ''title'') = Inr x"
    by (auto simp: generate_try_def bind_exn_def split: sum.splits if_splits option.splits)
  then show ?thesis by (cases v) auto
qed

lemma call_then_in_trace:
  assumes "\<And>v. emits (\<lambda>ev. True) (g v)"
  shows "Call key args outcome \<in> set (trace (snd (and_then (call key args outcome) g s)))"
proof (cases outcome)
  case (Inl e)
  then show ?thesis by (simp add: and_then_def call_def)
next
  case (Inr v)
  from emits_trace [OF assms, of v "s\<lparr>trace := trace s @ [Call key args outcome]\<rparr>"]
  obtain q where "trace (snd (g v (s\<lparr>trace := trace s @ [Call key args outcome]\<rparr>)))
                    = (trace s @ [Call key args outcome]) @ q"
    by auto
  then show ?thesis using Inr by (simp add: and_then_def call_def)
qed

lemma scenes_call_args:
  "emits (\<lambda>ev. \<forall>args outcome. ev = Call (lit ''scenes'') args outcome \<longrightarrow>
            (\<exists>v. generate (chat E) (loads E) p = Inr v \<and> args = [v, ns, sd]
                 \<and> outcome = create_plan E v ns sd))
     (run_try E sb p ofn ns sd cb ts)"
  unfolding run_try_def Let_def
  by (rule emits_rules | simp add: lit_eq_iff)+

lemma scenes_call_made:
  assumes "generate (chat E) (loads E) p = Inr v"
  shows "Call (lit ''scenes'') [v, ns, sd] (create_plan E v ns sd)
           \<in> set (trace (snd (run_try E sb p ofn ns sd None ts s)))"
  unfolding run_try_def Let_def
  apply (simp add: and_then_notify_none and_then_call_ok and_then_record_step assms)
  apply (rule call_then_in_trace)
  apply (rule emits_rules | simp)+
  done

lemma scenes_call_made_unless_callback_raises:
  assumes "generate (chat E) (loads E) p = Inr v"
  shows "Call (lit ''scenes'') [v, ns, sd] (create_plan E v ns sd)
           \<in> set (trace (snd (run_try E sb p ofn ns sd cb ts s)))
         \<or> (\<exists>step n label detail e. Notify step n label detail (Some e)
               \<in> set (trace (snd (run_try E sb p ofn ns sd cb ts s))))"
proof (cases cb)
  case None
  then show ?thesis using scenes_call_made [OF assms] by simp
next
  case (Some f)
  from generate_returns_dict [OF assms] obtain kvs where v: "v = PDict kvs" by blast
  show ?thesis
    unfolding run_try_def Let_def Some
    apply (simp add: and_then_notify_some and_then_call_ok and_then_record_step assms
        bind_exn_def v split: option.splits)
    apply (intro conjI impI allI)
    apply ((rule disjI2, blast)
        | (rule disjI1, rule call_then_in_trace, (rule emits_rules | simp)+))+
    done
qed

lemma run_trace:
  "snd (run E sb p ofn ns sd cb ts)
     = trace (snd (run_try E sb p ofn ns sd cb ts
         \<lparr>current_project = \<lparr>prompt = p, timestamp = ts, steps = []\<rparr>, trace = []\<rparr>))"
  unfolding run_def Let_def by (auto split: prod.splits sum.splits)

text \<open>
  Claim C8, as amended. What script generation returns, when it returns, is a dictionary
  in which the keys \<open>title\<close> and \<open>script\<close> are present; their values are not checked, and
  either may be empty or not a string. The orchestrator does not check them either: it
  invokes scene planning with the returned object as it is, unless the progress callback
  raises before.
\<close>

theorem unchecked_script_reaches_scene_planner:
  assumes "generate (chat E) (loads E) user_prompt = Inr v"
    and "run E use_storyboard user_prompt output_filename num_scenes scene_duration
             progress_callback stamp = (r, tr)"
  shows "(\<exists>kvs. v = PDict kvs \<and> lit ''title'' \<in> fst ` set kvs \<and> lit ''script'' \<in> fst ` set kvs)
         \<and> (\<forall>args outcome. Call (lit ''scenes'') args outcome \<in> set tr \<longrightarrow>
               args = [v, num_scenes, scene_duration]
               \<and> outcome = create_plan E v num_scenes scene_duration)
         \<and> (Call (lit ''scenes'') [v, num_scenes, scene_duration]
               (create_plan E v num_scenes scene_duration) \<in> set tr
             \<or> (\<exists>step n label detail e. Notify step n label detail (Some e) \<in> set tr))"
proof -
  note a = generate_returns_dict [OF assms(1)]
  have b: "args = [v, num_scenes, scene_duration]
           \<and> outcome = create_plan E v num_scenes scene_duration"
    if "Call (lit ''scenes'') args outcome \<in> set tr" for args outcome
    using emits_run [OF scenes_call_args assms(2)] that assms(1) by fastforce
  have tr: "tr = snd (run E use_storyboard user_prompt output_filename num_scenes scene_duration
                        progress_callback stamp)"
    using assms(2) by simp
  have c: "Call (lit ''scenes'') [v, num_scenes, scene_duration]
               (create_plan E v num_scenes scene_duration) \<in> set tr
             \<or> (\<exists>step n label detail e. Notify step n label detail (Some e) \<in> set tr)"
    unfolding tr run_trace by (rule scenes_call_made_unless_callback_raises [OF assms(1)])
  show ?thesis using a b c by blast
qed

theorem unchecked_script_reaches_scene_planner_witness:
  "generate (chat failing_plan_env) (loads failing_plan_env) (lit ''Explain how rainbows form'')
     = Inr (PDict [(lit ''title'', PStr (lit ''How Rainbows Form'')),
                   (lit ''script'', PStr (lit ''Light bends.''))])
   \<and> run failing_plan_env True (lit ''Explain how rainbows form'') None PNone PNone None
       (lit ''20240101_120000'')
     = (fst (run failing_plan_env True (lit ''Explain how rainbows form'') None PNone PNone None
               (lit ''20240101_120000'')),
        snd (run failing_plan_env True (lit ''Explain how rainbows form'') None PNone PNone None
               (lit ''20240101_120000'')))
   \<and> Call (lit ''scenes'')
         [PDict [(lit ''title'', PStr (lit ''How Rainbows Form'')),
                 (lit ''script'', PStr (lit ''Light bends.''))], PNone, PNone]
         (Inl (Exn ValueError (lit ''Invalid scene plan structure'')))
       \<in> set (snd (run failing_plan_env True (lit ''Explain how rainbows form'') None PNone
                      PNone None (lit ''20240101_120000'')))
   \<and> create_plan failing_plan_env
         (PDict [(lit ''title'', PStr (lit ''How Rainbows Form'')),
                 (lit ''script'', PStr (lit ''Light bends.''))]) PNone PNone
       = Inl (Exn ValueError (lit ''Invalid scene plan structure''))"
proof -
  let ?R = "run failing_plan_env True (lit ''Explain how rainbows form'') None PNone PNone None
              (lit ''20240101_120000'')"
  let ?v = "PDict [(lit ''title'', PStr (lit ''How Rainbows Form'')),
                   (lit ''script'', PStr (lit ''Light bends.''))]"
  let ?o = "Inl (Exn ValueError (lit ''Invalid scene plan structure'')) :: exn + pyval"
  have g: "generate (chat failing_plan_env) (loads failing_plan_env)
             (lit ''Explain how rainbows form'') = Inr ?v"
    by (simp add: generate_examples)
  have h: "?R = (fst ?R, snd ?R)" by simp
  have c: "Call (lit ''scenes'') [?v, PNone, PNone] ?o \<in> set (snd ?R)"
    by (simp add: failing_plan_run)
  note t = unchecked_script_reaches_scene_planner [OF g h]
  from t have a: "\<forall>args outcome. Call (lit ''scenes'') args outcome \<in> set (snd ?R) \<longrightarrow>
      args = [?v, PNone, PNone] \<and> outcome = create_plan failing_plan_env ?v PNone PNone"
    by (rule conjunct1 [OF conjunct2])
  from a c have d: "?o = create_plan failing_plan_env ?v PNone PNone"
    by blast
  show ?thesis
    by (intro conjI g h c d [symmetric])
qed

text \<open>
  Claim C8 as stated fails for a response whose two fields are empty strings: script
  generation returns it, and the orchestrator invokes scene planning with it.
\<close>

theorem empty_script_accepted:
  \<open>chat empty_script_env (lit ''Explain how rainbows form'')
     = Inr (Some (lit ''{"title": "", "script": ""}''))
   \<and> generate (chat empty_script_env) (loads empty_script_env) (lit ''Explain how rainbows form'')
     = Inr (PDict [(lit ''title'', PStr []), (lit ''script'', PStr [])])
   \<and> Call (lit ''scenes'')
        [PDict [(lit ''title'', PStr []), (lit ''script'', PStr [])], PNone, PNone]
        (create_plan empty_script_env
           (PDict [(lit ''title'', PStr []), (lit ''script'', PStr [])]) PNone PNone)
      \<in> set (snd (run empty_script_env True (lit ''Explain how rainbows form'') None PNone PNone
                      None (lit ''20240101_120000'')))\<close>
proof -
  have c: \<open>chat empty_script_env (lit ''Explain how rainbows form'')
             = Inr (Some (lit ''{"title": "", "script": ""}''))\<close>
    by (simp add: empty_script_env_def)
  have g: "generate (chat empty_script_env) (loads empty_script_env)
             (lit ''Explain how rainbows form'')
             = Inr (PDict [(lit ''title'', PStr []), (lit ''script'', PStr [])])"
    by (simp add: generate_examples)
  show ?thesis
    unfolding run_trace using c g scenes_call_made [OF g] by simp
qed

end
